theory Spec2Isabelle
  imports Complex_Main "HOL-Library.List_Lexorder" "HOL-Library.Char_ord"
begin

section \<open>Conventions of the embedding\<close>

text \<open>
  The two modules embedded here are \<^verbatim>\<open>bin/IMBIE/imbie_utils.py\<close> and
  \<^verbatim>\<open>notebooks/Gravimetry/mascons.py\<close>.

  Numbers. Python floats and NumPy float64 entries are modelled by \<^typ>\<open>real\<close>:
  arithmetic is exact, so rounding, overflow and the infinities are outside the model.
  Where the source tests for NaN or produces NaN on purpose, the entry type is
  \<open>npfloat\<close>, a real or NaN, with NaN absorbing in arithmetic.

  Libraries and files. What the modules read from disk is an argument of the model
  (a dataset, a layer of polygons, a map from paths to tables). A library routine whose
  result the repository takes as it comes (the leap-year predicate of cftime, the time
  interpolation of xarray, the geometric predicate of shapely) is a parameter; a
  routine whose behaviour a claim depends on (NumPy's reductions and masks, pandas'
  join and group sums, Python's date parsing, SciPy's linear interpolation) is written
  out as the library documents it.

  Errors. Every \<^verbatim>\<open>raise\<close> of the source, and every exception of a library call that
  the source can trigger on well-typed arguments, is a constructor of \<open>error\<close>; a
  function that can raise returns \<open>error + 'a\<close>.
\<close>

datatype error =
    DatesOutOfRange      \<comment> \<open>ValueError raised by \<^verbatim>\<open>check_datarange\<close>\<close>
  | EmptyReduction       \<comment> \<open>ValueError of NumPy's min/max on a zero-size array\<close>
  | InvalidIcesheet      \<comment> \<open>ValueError raised by \<^verbatim>\<open>process_model_data\<close>\<close>
  | MissingColumn        \<comment> \<open>ValueError raised by \<^verbatim>\<open>sum_MassBalance\<close>: column absent\<close>
  | NoStartDate          \<comment> \<open>ValueError raised by \<^verbatim>\<open>sum_MassBalance\<close>: no row for the start date\<close>
  | FileNotFound         \<comment> \<open>FileNotFoundError of \<^verbatim>\<open>pd.read_csv\<close>\<close>
  | IndexError           \<comment> \<open>IndexError of an out-of-range or mis-sized index\<close>
  | TypeError            \<comment> \<open>TypeError, as of \<^verbatim>\<open>'East' in None\<close>\<close>
  | BadDateString        \<comment> \<open>ValueError of \<^verbatim>\<open>datetime.strptime\<close>\<close>
  | InterpShape          \<comment> \<open>ValueError of \<^verbatim>\<open>interp1d\<close> on mis-sized or too short arrays\<close>
  | BroadcastError       \<comment> \<open>ValueError of NumPy on operands that cannot be broadcast together\<close>

datatype npfloat = NaN | Val real

fun isnan :: "npfloat \<Rightarrow> bool" where
  "isnan NaN = True"
| "isnan (Val _) = False"

fun np_sub :: "npfloat \<Rightarrow> npfloat \<Rightarrow> npfloat" where
  "np_sub (Val a) (Val b) = Val (a - b)"
| "np_sub _ _ = NaN"

section \<open>imbie\_utils: calendar and range check\<close>

text \<open>
  A cftime timestamp, reduced to the attributes the module reads, and its position
  \<open>instant\<close> on the time line of its calendar, which is what a comparison of two
  timestamps of one calendar reads.
\<close>

record cftime_date =
  calendar :: string
  year :: int
  dayofyr :: int
  instant :: real

text \<open>
  \<^verbatim>\<open>days_in_year(date)\<close>. The library predicate \<^verbatim>\<open>cftime.is_leap_year(year, calendar)\<close>
  is not part of the repository and is taken as the parameter \<open>is_leap_year\<close>.
\<close>

definition days_in_year :: "(int \<Rightarrow> string \<Rightarrow> bool) \<Rightarrow> cftime_date \<Rightarrow> int" where
  "days_in_year is_leap_year date =
     (if calendar date = ''365_day'' \<or> calendar date = ''noleap'' then 365
      else if calendar date = ''366_day'' \<or> calendar date = ''all_leap'' then 366
      else if calendar date = ''360_day'' then 360
      else if is_leap_year (year date) (calendar date) then 366
      else 365)"

text \<open>The Gregorian rule, used as a concrete instance of the library predicate.\<close>

definition gregorian_leap :: "int \<Rightarrow> string \<Rightarrow> bool" where
  "gregorian_leap y c = (y mod 4 = 0 \<and> (y mod 100 \<noteq> 0 \<or> y mod 400 = 0))"

text \<open>
  \<^verbatim>\<open>check_datarange(time_var, start_date_cftime, end_date_cftime)\<close>. The time coordinate
  is the list of its values, over any linearly ordered type of timestamps.
  \<^verbatim>\<open>time_var.values.min()\<close> raises on a zero-size array; otherwise the chained
  comparison decides between printing and raising. The calendar read in the first line
  of the function is not used.
\<close>

fun np_min :: "'t::linorder list \<Rightarrow> error + 't" where
  "np_min [] = Inl EmptyReduction"
| "np_min (x # xs) = Inr (fold min xs x)"

fun np_max :: "'t::linorder list \<Rightarrow> error + 't" where
  "np_max [] = Inl EmptyReduction"
| "np_max (x # xs) = Inr (fold max xs x)"

definition check_datarange :: "'t::linorder list \<Rightarrow> 't \<Rightarrow> 't \<Rightarrow> error + unit" where
  "check_datarange time_values start_date_cftime end_date_cftime =
     (case np_min time_values of
        Inl e \<Rightarrow> Inl e
      | Inr min_time \<Rightarrow>
          (case np_max time_values of
             Inl e \<Rightarrow> Inl e
           | Inr max_time \<Rightarrow>
               if (min_time \<le> start_date_cftime \<and> start_date_cftime \<le> max_time)
                  \<and> (min_time \<le> end_date_cftime \<and> end_date_cftime \<le> max_time)
               then Inr ()
               else Inl DatesOutOfRange))"

section \<open>imbie\_utils: model mass change per basin\<close>

text \<open>
  \<^verbatim>\<open>process_model_data\<close> reads a NetCDF dataset and a basin shapefile. The dataset is the
  record below. The time interpolation of xarray is not part of the repository:
  \<open>lithk_interp axis t k\<close> stands for entry \<open>k\<close> of
  \<^verbatim>\<open>lithk.interp(time=t).data.transpose().flatten()\<close> once the time axis of \<^verbatim>\<open>lithk\<close>
  has been replaced by \<open>axis\<close>; the flattened snapshot has one entry for every pair of
  an x and a y coordinate, x-major, as the list of points has.
\<close>

record gis_dataset =
  time_data :: "cftime_date list"
  x_values :: "real list"
  y_values :: "real list"
  lithk_interp :: "real list \<Rightarrow> real \<Rightarrow> nat \<Rightarrow> npfloat"

text \<open>
  A row of the basin layer: its polygon and the attribute columns the module groups by
  (\<^verbatim>\<open>SUBREGION1\<close> for Greenland, \<^verbatim>\<open>Subregion\<close> and \<^verbatim>\<open>Regions\<close> for Antarctica).
\<close>

record 'g basin_row =
  geometry :: 'g
  SUBREGION1 :: string
  Subregion :: string
  Regions :: string

text \<open>The value stored per date in \<^verbatim>\<open>modal_mass_changes\<close>; a pandas Series of group sums
  is the list of its (label, sum) entries, labels sorted and distinct.\<close>

record mass_change_record =
  model_total_mass_balance_unmasked :: real
  model_total_mass_balance_masked :: real
  basin_mass_change_sums :: "(string \<times> real) list"
  region_mass_change_sums :: "(string \<times> real) list option"

definition fractional_year :: "(int \<Rightarrow> string \<Rightarrow> bool) \<Rightarrow> cftime_date \<Rightarrow> real" where
  "fractional_year is_leap_year date =
     real_of_int (year date)
       + (real_of_int (dayofyr date) - 1) / real_of_int (days_in_year is_leap_year date)"

text \<open>\<^verbatim>\<open>abs(coords[1] - coords[0])\<close>: an IndexError on fewer than two coordinates.\<close>

fun resolution :: "real list \<Rightarrow> error + real" where
  "resolution (c0 # c1 # _) = Inr \<bar>c1 - c0\<bar>"
| "resolution _ = Inl IndexError"

text \<open>\<^verbatim>\<open>lithk_delta[np.isnan(lithk_delta)] = 0\<close>, entry by entry: what is left has no NaN.\<close>

fun nan_to_zero :: "npfloat \<Rightarrow> real" where
  "nan_to_zero NaN = 0"
| "nan_to_zero (Val d) = d"

text \<open>
  Lines 91 to 100 of the loop body: the snapshot difference, the NaN fill, then
  \<^verbatim>\<open>(lithk_delta * x_resolution*y_resolution)*rho_ice * 1e-12\<close> in Python's order of
  evaluation, for the \<open>n\<close> grid points.
\<close>

definition lithk_delta_step ::
  "(nat \<Rightarrow> npfloat) \<Rightarrow> (nat \<Rightarrow> npfloat) \<Rightarrow> nat \<Rightarrow> real \<Rightarrow> real \<Rightarrow> real \<Rightarrow> real list" where
  "lithk_delta_step lithk_current lithk_start n x_resolution y_resolution rho_ice =
     map (\<lambda>k. (((nan_to_zero (np_sub (lithk_current k) (lithk_start k)) * x_resolution)
                  * y_resolution) * rho_ice) * (1 / 10 ^ 12))
         [0..<n]"

text \<open>
  \<^verbatim>\<open>gpd.sjoin(lithk_gdf, basins_gdf, how="inner", predicate='intersects')\<close>: one row for
  every pair of a grid point and a basin polygon that intersect, carrying the index of
  the point and the attributes of the polygon. The geometric predicate of shapely is the
  parameter \<open>intersects\<close>.
\<close>

definition sjoin ::
  "((real \<times> real) \<Rightarrow> 'g \<Rightarrow> bool) \<Rightarrow> (real \<times> real) list \<Rightarrow> 'g basin_row list
     \<Rightarrow> (nat \<times> 'g basin_row) list" where
  "sjoin intersects points basins_gdf =
     concat (map (\<lambda>k. map (\<lambda>b. (k, b))
                         (filter (\<lambda>b. intersects (points ! k) (geometry b)) basins_gdf))
                 [0..<length points])"

text \<open>
  \<^verbatim>\<open>joined_gdf.groupby(column)['lithk_delta'].sum()\<close>, after
  \<^verbatim>\<open>joined_gdf['lithk_delta'] = lithk_gdf['lithk_delta']\<close> has given every joined row the
  delta of its grid point (the assignment aligns on the index of the point).
\<close>

definition groupby_sum ::
  "('g basin_row \<Rightarrow> string) \<Rightarrow> real list \<Rightarrow> (nat \<times> 'g basin_row) list \<Rightarrow> (string \<times> real) list" where
  "groupby_sum column lithk_delta joined_gdf =
     map (\<lambda>label. (label, sum_list (map (\<lambda>r. lithk_delta ! fst r)
                                         (filter (\<lambda>r. column (snd r) = label) joined_gdf))))
         (sort (remdups (map (\<lambda>r. column (snd r)) joined_gdf)))"

text \<open>Lines 102 to 152 of the loop body: the totals of one time step.\<close>

definition aggregate_step ::
  "string \<Rightarrow> real list \<Rightarrow> (nat \<times> 'g basin_row) list \<Rightarrow> error + mass_change_record" where
  "aggregate_step icesheet lithk_delta joined_gdf =
     (let unmasked = sum_list lithk_delta in
      if icesheet = ''GIS'' then
        (let basin_sums = groupby_sum SUBREGION1 lithk_delta joined_gdf in
         Inr \<lparr>model_total_mass_balance_unmasked = unmasked,
              model_total_mass_balance_masked = sum_list (map snd basin_sums),
              basin_mass_change_sums = basin_sums,
              region_mass_change_sums = None\<rparr>)
      else if icesheet = ''AIS'' then
        (let basin_sums = groupby_sum Subregion lithk_delta joined_gdf;
             region_sums = groupby_sum Regions lithk_delta joined_gdf in
         Inr \<lparr>model_total_mass_balance_unmasked = unmasked,
              model_total_mass_balance_masked = sum_list (map snd basin_sums),
              basin_mass_change_sums = basin_sums,
              region_mass_change_sums = Some region_sums\<rparr>)
      else Inl InvalidIcesheet)"

text \<open>
  The loop over the analysis dates: each date stores its record under its own key, a
  later equal date overwriting an earlier one; the first failing step aborts. The keys
  \<^verbatim>\<open>str(time_step)\<close> are modelled by the dates themselves.
\<close>

fun model_loop ::
  "(real \<Rightarrow> error + mass_change_record) \<Rightarrow> real list \<Rightarrow> (real \<rightharpoonup> mass_change_record)
     \<Rightarrow> error + (real \<rightharpoonup> mass_change_record)" where
  "model_loop step [] modal_mass_changes = Inr modal_mass_changes"
| "model_loop step (time_step # rest) modal_mass_changes =
     (case step time_step of
        Inl e \<Rightarrow> Inl e
      | Inr r \<Rightarrow> model_loop step rest (modal_mass_changes(time_step \<mapsto> r)))"

text \<open>
  \<^verbatim>\<open>process_model_data\<close>. The dataset \<open>gis_ds\<close> stands for the file \<^verbatim>\<open>nc_filename\<close>, the
  layer \<open>basins_gdf\<close> for \<^verbatim>\<open>shape_filename\<close>, and \<open>imbie_years\<close> for the \<^verbatim>\<open>Year\<close> column of
  \<^verbatim>\<open>IMBIE_total_mass_change_sum\<close>. The arguments \<^verbatim>\<open>end_date_fract\<close> and \<^verbatim>\<open>projection\<close> do
  not influence the result and are left out. The join is computed in the first
  iteration and reused; it depends on the points and the polygons only.
\<close>

definition process_model_data ::
  "(int \<Rightarrow> string \<Rightarrow> bool) \<Rightarrow> ((real \<times> real) \<Rightarrow> 'g \<Rightarrow> bool) \<Rightarrow> gis_dataset \<Rightarrow> 'g basin_row list
     \<Rightarrow> real list \<Rightarrow> cftime_date \<Rightarrow> cftime_date \<Rightarrow> real \<Rightarrow> real \<Rightarrow> string
     \<Rightarrow> error + (real \<rightharpoonup> mass_change_record)" where
  "process_model_data is_leap_year intersects gis_ds basins_gdf imbie_years
       start_date_cftime end_date_cftime start_date_fract rho_ice icesheet =
     (let time_axis = map (fractional_year is_leap_year) (time_data gis_ds) in
      case check_datarange (map instant (time_data gis_ds))
             (instant start_date_cftime) (instant end_date_cftime) of
        Inl e \<Rightarrow> Inl e
      | Inr _ \<Rightarrow>
          (case resolution (x_values gis_ds) of
             Inl e \<Rightarrow> Inl e
           | Inr x_resolution \<Rightarrow>
               (case resolution (y_values gis_ds) of
                  Inl e \<Rightarrow> Inl e
                | Inr y_resolution \<Rightarrow>
                    (let points = List.product (x_values gis_ds) (y_values gis_ds);
                         lithk_start = lithk_interp gis_ds time_axis start_date_fract;
                         joined_gdf = sjoin intersects points basins_gdf
                     in model_loop
                          (\<lambda>time_step.
                             aggregate_step icesheet
                               (lithk_delta_step (lithk_interp gis_ds time_axis time_step) lithk_start
                                  (length points) x_resolution y_resolution rho_ice)
                               joined_gdf)
                          imbie_years Map.empty))))"

section \<open>imbie\_utils: observation series and residuals\<close>

text \<open>
  An observation CSV as \<^verbatim>\<open>pd.read_csv\<close> returns it: the \<^verbatim>\<open>Year\<close> column and the other
  numeric columns by name, every column with one entry per row. The file system is a
  map from paths to tables; reading a path that is not there raises.
\<close>

record obs_csv =
  Year_column :: "real list"
  other_columns :: "(string \<times> real list) list"

definition read_csv :: "(string \<rightharpoonup> obs_csv) \<Rightarrow> string \<Rightarrow> error + obs_csv" where
  "read_csv fs filename = (case fs filename of None \<Rightarrow> Inl FileNotFound | Some t \<Rightarrow> Inr t)"

definition get_column :: "obs_csv \<Rightarrow> string \<Rightarrow> real list option" where
  "get_column t name =
     (if name = ''Year'' then Some (Year_column t) else map_of (other_columns t) name)"

text \<open>A row of the frame \<^verbatim>\<open>sum_MassBalance\<close> returns: the date, the value of the chosen
  column, and the new column \<^verbatim>\<open>IMBIE_Mass_Change\<close>.\<close>

record obs_row =
  Year :: real
  mass_balance :: real
  IMBIE_Mass_Change :: real

text \<open>
  The loop over \<^verbatim>\<open>filtered_data.iterrows()\<close>. The source never assigns
  \<^verbatim>\<open>previous_mass_balance\<close> inside the loop, so every iteration sees the value it was
  initialised with.
\<close>

fun mass_changes_loop :: "real \<Rightarrow> (real \<times> real) list \<Rightarrow> real list" where
  "mass_changes_loop previous_mass_balance [] = []"
| "mass_changes_loop previous_mass_balance (row # rows) =
     (let current_mass_balance = snd row;
          mass_change = current_mass_balance - previous_mass_balance
      in mass_change # mass_changes_loop previous_mass_balance rows)"

text \<open>
  \<^verbatim>\<open>sum_MassBalance\<close>. Rows are pairs of a date and the value of the chosen column.
  The model is meant for series without repeated dates: pandas sorts with NumPy's
  quicksort, which leaves the order of rows of equal date open, and with it the start
  value when the start date is repeated; the model keeps such rows in file order.
\<close>

definition sum_MassBalance ::
  "(string \<rightharpoonup> obs_csv) \<Rightarrow> string \<Rightarrow> real \<Rightarrow> real \<Rightarrow> string \<Rightarrow> error + obs_row list" where
  "sum_MassBalance fs obs_filename start_date_fract end_date_fract mass_balance_column =
     (case read_csv fs obs_filename of
        Inl e \<Rightarrow> Inl e
      | Inr t \<Rightarrow>
          (case get_column t mass_balance_column of
             None \<Rightarrow> Inl MissingColumn
           | Some col \<Rightarrow>
               (let mass_balance_data = sort_key fst (zip (Year_column t) col);
                    data_start_date = filter (\<lambda>r. fst r = start_date_fract) mass_balance_data
                in case data_start_date of
                     [] \<Rightarrow> Inl NoStartDate
                   | first_row # _ \<Rightarrow>
                       (let mass_balance_start_value = snd first_row;
                            filtered_data =
                              filter (\<lambda>r. fst r > start_date_fract \<and> fst r \<le> end_date_fract)
                                mass_balance_data;
                            mass_changes = mass_changes_loop mass_balance_start_value filtered_data
                        in Inr (map (\<lambda>(r, c). \<lparr>Year = fst r, mass_balance = snd r,
                                                IMBIE_Mass_Change = c\<rparr>)
                                    (zip filtered_data mass_changes))))))"

text \<open>
  The result of \<^verbatim>\<open>process_IMBIE\<close>. The dictionary \<^verbatim>\<open>results\<close> has three kinds of keys,
  which are the three fields here: the date strings, \<^verbatim>\<open>'Regional_Mass_Change_Summary'\<close>
  (absent until assigned) and \<^verbatim>\<open>'print_regionalresult_check'\<close>. An entry of the regional
  summary holds, for each region that was found, the pair of \<^verbatim>\<open>IMBIE_Mass_Change_<Region>\<close>
  and \<^verbatim>\<open>Delta_MassChange_<Region>\<close>.
\<close>

record residual =
  IMBIE_total_mass_change_sum :: real
  Delta_MassChange_masked :: real
  Delta_MassChange_unmasked :: real

record regional_entry =
  East :: "(real \<times> real) option"
  West :: "(real \<times> real) option"
  Peninsula :: "(real \<times> real) option"

record imbie_results =
  per_date :: "real \<rightharpoonup> residual"
  Regional_Mass_Change_Summary :: "(real \<rightharpoonup> regional_entry) option"
  print_regionalresult_check :: string

text \<open>The first loop: the residuals of the totals, date by date.\<close>

fun totals_loop ::
  "(real \<rightharpoonup> mass_change_record) \<Rightarrow> obs_row list \<Rightarrow> (real \<rightharpoonup> residual) \<Rightarrow> (real \<rightharpoonup> residual)" where
  "totals_loop basin_result [] results = results"
| "totals_loop basin_result (row # rows) results =
     (let date = Year row; imbie_mass_change = IMBIE_Mass_Change row in
      case basin_result date of
        Some m \<Rightarrow>
          totals_loop basin_result rows
            (results(date \<mapsto>
               \<lparr>IMBIE_total_mass_change_sum = imbie_mass_change,
                Delta_MassChange_masked = imbie_mass_change - model_total_mass_balance_masked m,
                Delta_MassChange_unmasked = imbie_mass_change - model_total_mass_balance_unmasked m\<rparr>))
      | None \<Rightarrow> totals_loop basin_result rows results)"

text \<open>\<^verbatim>\<open>regional_results.setdefault(str(date), {}).update({...})\<close> for one region.\<close>

definition setdefault :: "(real \<rightharpoonup> regional_entry) \<Rightarrow> real \<Rightarrow> regional_entry" where
  "setdefault regional_results date =
     (case regional_results date of
        None \<Rightarrow> \<lparr>East = None, West = None, Peninsula = None\<rparr>
      | Some entry \<Rightarrow> entry)"

definition region_update ::
  "(string \<times> real) list \<Rightarrow> string \<Rightarrow> real \<Rightarrow> (regional_entry \<Rightarrow> (real \<times> real) option \<Rightarrow> regional_entry)
     \<Rightarrow> real \<Rightarrow> (real \<rightharpoonup> regional_entry) \<Rightarrow> (real \<rightharpoonup> regional_entry)" where
  "region_update region_sums name imbie_mass_change put date regional_results =
     (case map_of region_sums name of
        Some model_sum \<Rightarrow>
          regional_results(date \<mapsto>
            put (setdefault regional_results date)
                (Some (imbie_mass_change, imbie_mass_change - model_sum)))
      | None \<Rightarrow> regional_results)"

text \<open>The second loop, over the zipped rows of the three regional series.\<close>

fun regional_loop ::
  "(real \<rightharpoonup> mass_change_record) \<Rightarrow> (obs_row \<times> obs_row \<times> obs_row) list
     \<Rightarrow> (real \<rightharpoonup> regional_entry) \<Rightarrow> error + (real \<rightharpoonup> regional_entry)" where
  "regional_loop basin_result [] regional_results = Inr regional_results"
| "regional_loop basin_result ((east_row, west_row, peninsula_row) # rows) regional_results =
     (let date = Year east_row in
      case basin_result date of
        None \<Rightarrow> regional_loop basin_result rows regional_results
      | Some m \<Rightarrow>
          (case region_mass_change_sums m of
             None \<Rightarrow> Inl TypeError
           | Some region_sums \<Rightarrow>
               regional_loop basin_result rows
                 (region_update region_sums ''Peninsula'' (IMBIE_Mass_Change peninsula_row)
                    (\<lambda>e v. e\<lparr>Peninsula := v\<rparr>) date
                 (region_update region_sums ''West'' (IMBIE_Mass_Change west_row)
                    (\<lambda>e v. e\<lparr>West := v\<rparr>) date
                 (region_update region_sums ''East'' (IMBIE_Mass_Change east_row)
                    (\<lambda>e v. e\<lparr>East := v\<rparr>) date regional_results)))))"

text \<open>\<^verbatim>\<open>name and os.path.exists(name)\<close>: the name is given, not empty, and on disk.\<close>

definition file_given_and_exists :: "(string \<rightharpoonup> obs_csv) \<Rightarrow> string option \<Rightarrow> bool" where
  "file_given_and_exists fs filename =
     (case filename of None \<Rightarrow> False | Some p \<Rightarrow> p \<noteq> [] \<and> fs p \<noteq> None)"

text \<open>The test of lines 249 to 251: the three names, when every one of them passes.\<close>

definition regional_files ::
  "(string \<rightharpoonup> obs_csv) \<Rightarrow> string option \<Rightarrow> string option \<Rightarrow> string option
     \<Rightarrow> (string \<times> string \<times> string) option" where
  "regional_files fs obs_east_filename obs_west_filename obs_peninsula_filename =
     (case (obs_east_filename, obs_west_filename, obs_peninsula_filename) of
        (Some e, Some w, Some p) \<Rightarrow>
          if file_given_and_exists fs obs_east_filename
             \<and> file_given_and_exists fs obs_west_filename
             \<and> file_given_and_exists fs obs_peninsula_filename
          then Some (e, w, p) else None
      | _ \<Rightarrow> None)"

definition no_regional :: "(real \<rightharpoonup> residual) \<Rightarrow> imbie_results" where
  "no_regional results =
     \<lparr>per_date = results, Regional_Mass_Change_Summary = None,
      print_regionalresult_check = ''NO''\<rparr>"

text \<open>\<^verbatim>\<open>process_IMBIE\<close>. Its first argument \<^verbatim>\<open>obs_filename\<close> is never read.\<close>

definition process_IMBIE ::
  "(string \<rightharpoonup> obs_csv) \<Rightarrow> string \<Rightarrow> real \<Rightarrow> real \<Rightarrow> string \<Rightarrow> (real \<rightharpoonup> mass_change_record)
     \<Rightarrow> obs_row list \<Rightarrow> string \<Rightarrow> string option \<Rightarrow> string option \<Rightarrow> string option
     \<Rightarrow> error + imbie_results" where
  "process_IMBIE fs obs_filename start_date_fract end_date_fract icesheet basin_result imbie_total
       mass_balance_column obs_east_filename obs_west_filename obs_peninsula_filename =
     (let results = totals_loop basin_result imbie_total Map.empty in
      if icesheet = ''AIS'' then
        (case regional_files fs obs_east_filename obs_west_filename obs_peninsula_filename of
           None \<Rightarrow> Inr (no_regional results)
         | Some (e, w, p) \<Rightarrow>
        (case sum_MassBalance fs e start_date_fract end_date_fract mass_balance_column of
           Inl err \<Rightarrow> Inl err
         | Inr east \<Rightarrow>
        (case sum_MassBalance fs w start_date_fract end_date_fract mass_balance_column of
           Inl err \<Rightarrow> Inl err
         | Inr west \<Rightarrow>
        (case sum_MassBalance fs p start_date_fract end_date_fract mass_balance_column of
           Inl err \<Rightarrow> Inl err
         | Inr peninsula \<Rightarrow>
        (case regional_loop basin_result (zip east (zip west peninsula)) Map.empty of
           Inl err \<Rightarrow> Inl err
         | Inr regional_results \<Rightarrow>
             Inr \<lparr>per_date = results,
                  Regional_Mass_Change_Summary = Some regional_results,
                  print_regionalresult_check = ''YES''\<rparr>)))))
      else Inr (no_regional results))"

section \<open>mascons: the GSFC mascon set\<close>

text \<open>
  The datasets of the HDF5 file that \<^verbatim>\<open>GSFCmascons.__init__\<close> reads. The per-mascon
  arrays have one entry per mascon, the time arrays one entry per solution, and
  \<open>solution_cmwe\<close> one row per mascon with one entry per solution.
\<close>

record mascon_file =
  lat_center :: "real list"
  lat_span :: "real list"
  lon_center :: "real list"
  lon_span :: "real list"
  location :: "real list"
  basin :: "real list"
  area_km2 :: "real list"
  solution_cmwe :: "real list list"
  ref_days_first :: "real list"
  ref_days_middle :: "real list"
  ref_days_last :: "real list"

text \<open>The attributes of a \<^verbatim>\<open>GSFCmascons\<close> object; the three \<^verbatim>\<open>times_*\<close> arrays are kept as
  whole hours after 2002-01-01T00:00:00.\<close>

record GSFCmascons =
  lat_centers :: "real list"
  lat_spans :: "real list"
  lon_centers :: "real list"
  lon_spans :: "real list"
  locations :: "real list"
  basins :: "real list"
  areas :: "real list"
  cmwe :: "real list list"
  days_start :: "real list"
  days_middle :: "real list"
  days_end :: "real list"
  times_start :: "int list"
  times_middle :: "int list"
  times_end :: "int list"
  N_mascons :: nat
  N_times :: nat
  labels :: "nat list"
  min_lats :: "real list"
  max_lats :: "real list"
  min_lons :: "real list"
  max_lons :: "real list"

text \<open>Element-wise \<^verbatim>\<open>centers - spans/2\<close> and \<^verbatim>\<open>centers + spans/2\<close>.\<close>

definition lower_bounds :: "real list \<Rightarrow> real list \<Rightarrow> real list" where
  "lower_bounds centers spans = map2 (\<lambda>c s. c - s / 2) centers spans"

definition upper_bounds :: "real list \<Rightarrow> real list \<Rightarrow> real list" where
  "upper_bounds centers spans = map2 (\<lambda>c s. c + s / 2) centers spans"

text \<open>\<^verbatim>\<open>a[mask] = v\<close> for a boolean mask as long as \<open>a\<close>.\<close>

definition masked_assign :: "real list \<Rightarrow> bool list \<Rightarrow> real \<Rightarrow> real list" where
  "masked_assign a msk v = map2 (\<lambda>x b. if b then v else x) a msk"

definition reset_lon_bounds :: "string \<Rightarrow> real list \<Rightarrow> real list" where
  "reset_lon_bounds lon_wrap centers =
     (if lon_wrap = ''pm180'' then map (\<lambda>c. if c > 180 then c - 360 else c) centers
      else if lon_wrap = ''0to360'' then map (\<lambda>c. if c < 0 then c + 360 else c) centers
      else centers)"

text \<open>Python's \<^verbatim>\<open>int(d*24)\<close> truncates towards zero.\<close>

definition set_times_as_datetimes :: "real list \<Rightarrow> int list" where
  "set_times_as_datetimes days =
     map (\<lambda>d. if d * 24 \<ge> 0 then \<lfloor>d * 24\<rfloor> else \<lceil>d * 24\<rceil>) days"

text \<open>
  Lines 32 to 37 of \<^verbatim>\<open>__init__\<close>, in the order of the four assignments: each mask is
  computed from the arrays as they are when its statement runs.
\<close>

definition clamped_lats :: "real list \<Rightarrow> real list \<Rightarrow> real list \<times> real list" where
  "clamped_lats centers spans =
     (let min0 = lower_bounds centers spans;
          max0 = upper_bounds centers spans;
          max1 = masked_assign max0 (map (\<lambda>v. v < - 90) min0) (- 89.5);
          min1 = masked_assign min0 (map (\<lambda>v. v < - 90) min0) (- 90);
          min2 = masked_assign min1 (map (\<lambda>v. v > 90) max1) 89.5;
          max2 = masked_assign max1 (map (\<lambda>v. v > 90) max1) 90
      in (min2, max2))"

definition GSFCmascons_init :: "mascon_file \<Rightarrow> string \<Rightarrow> GSFCmascons" where
  "GSFCmascons_init f lon_wrap =
     (let wrapped = reset_lon_bounds lon_wrap (lon_center f);
          lats = clamped_lats (lat_center f) (lat_span f)
      in \<lparr>lat_centers = lat_center f,
          lat_spans = lat_span f,
          lon_centers = wrapped,
          lon_spans = lon_span f,
          locations = location f,
          basins = basin f,
          areas = area_km2 f,
          cmwe = solution_cmwe f,
          days_start = ref_days_first f,
          days_middle = ref_days_middle f,
          days_end = ref_days_last f,
          times_start = set_times_as_datetimes (ref_days_first f),
          times_middle = set_times_as_datetimes (ref_days_middle f),
          times_end = set_times_as_datetimes (ref_days_last f),
          N_mascons = length (lat_center f),
          N_times = length (ref_days_middle f),
          labels = [0..<length (lat_center f)],
          min_lats = fst lats,
          max_lats = snd lats,
          min_lons = lower_bounds wrapped (lon_span f),
          max_lons = upper_bounds wrapped (lon_span f)\<rparr>)"

section \<open>mascons: binning scattered points\<close>

text \<open>
  The bounds \<^verbatim>\<open>points_to_mascons\<close> computes for itself (lines 101 to 104), from the
  centers and spans of the object and not from its \<^verbatim>\<open>min_lats\<close> and \<^verbatim>\<open>max_lats\<close>.
\<close>

definition binning_min_lats :: "GSFCmascons \<Rightarrow> real list" where
  "binning_min_lats mascons = lower_bounds (lat_centers mascons) (lat_spans mascons)"

definition binning_max_lats :: "GSFCmascons \<Rightarrow> real list" where
  "binning_max_lats mascons = upper_bounds (lat_centers mascons) (lat_spans mascons)"

definition binning_min_lons :: "GSFCmascons \<Rightarrow> real list" where
  "binning_min_lons mascons = lower_bounds (lon_centers mascons) (lon_spans mascons)"

definition binning_max_lons :: "GSFCmascons \<Rightarrow> real list" where
  "binning_max_lons mascons = upper_bounds (lon_centers mascons) (lon_spans mascons)"

text \<open>\<^verbatim>\<open>np.nanmean\<close> of an array that holds no NaN and is not empty.\<close>

definition mean :: "real list \<Rightarrow> real" where
  "mean m = sum_list m / real (length m)"

text \<open>
  NumPy's broadcasting of two one-dimensional operands: an array of one element is
  stretched to the length of the other.
\<close>

definition broadcast :: "nat \<Rightarrow> real list \<Rightarrow> real list" where
  "broadcast n a = (if length a = 1 then replicate n (hd a) else a)"

text \<open>
  The body of the loop for mascon \<open>i\<close>: \<open>None\<close> is a \<^verbatim>\<open>continue\<close>, \<open>Some v\<close> the value
  that the body stores. Latitudes and longitudes are reals; a value is a real or NaN.
  The mask \<^verbatim>\<open>K_\<close> combines comparisons on \<^verbatim>\<open>lats\<close> and on \<^verbatim>\<open>lons\<close>, which NumPy broadcasts
  or refuses; indexing \<^verbatim>\<open>values\<close> and \<^verbatim>\<open>lats\<close> with it raises when their length is not the
  length of the mask. After the NaN entries have been dropped from \<open>m\<close>,
  \<open>nan_to_zero\<close> only reads the reals that are left.
\<close>

definition cell_mean ::
  "GSFCmascons \<Rightarrow> real list \<Rightarrow> real list \<Rightarrow> npfloat list \<Rightarrow> nat \<Rightarrow> error + real option" where
  "cell_mean mascons lats lons vals i =
     (case np_min lats of Inl e \<Rightarrow> Inl e | Inr lat_lo \<Rightarrow>
      if lat_lo > binning_max_lats mascons ! i then Inr None else
     (case np_max lats of Inl e \<Rightarrow> Inl e | Inr lat_hi \<Rightarrow>
      if lat_hi < binning_min_lats mascons ! i then Inr None else
     (case np_min lons of Inl e \<Rightarrow> Inl e | Inr lon_lo \<Rightarrow>
      if lon_lo > binning_max_lons mascons ! i then Inr None else
     (case np_max lons of Inl e \<Rightarrow> Inl e | Inr lon_hi \<Rightarrow>
      if lon_hi < binning_min_lons mascons ! i then Inr None else
      if length lons \<noteq> length lats \<and> length lats \<noteq> 1 \<and> length lons \<noteq> 1
      then Inl BroadcastError else
      (let n = max (length lats) (length lons);
           K = map2 (\<lambda>la lo. la \<ge> binning_min_lats mascons ! i \<and> la < binning_max_lats mascons ! i
                            \<and> lo \<ge> binning_min_lons mascons ! i \<and> lo < binning_max_lons mascons ! i)
                    (broadcast n lats) (broadcast n lons)
       in if length vals \<noteq> n \<or> length lats \<noteq> n then Inl IndexError else
          (let m = map fst (filter snd (zip vals K));
               m' = map nan_to_zero (filter (\<lambda>v. \<not> isnan v) m)
           in if length m' = 0 then Inr None else Inr (Some (mean m'))))))))"

text \<open>
  The loop over the selected indices. The counter \<open>j\<close> is advanced only at the end of
  a body that was not left by \<^verbatim>\<open>continue\<close>; it stays below the number of selected
  cells, so the store is always in range.
\<close>

fun mascon_loop ::
  "(nat \<Rightarrow> error + real option) \<Rightarrow> nat list \<Rightarrow> nat \<Rightarrow> npfloat list \<Rightarrow> error + npfloat list" where
  "mascon_loop body [] j mscn_mean = Inr mscn_mean"
| "mascon_loop body (i # indices) j mscn_mean =
     (case body i of
        Inl e \<Rightarrow> Inl e
      | Inr None \<Rightarrow> mascon_loop body indices j mscn_mean
      | Inr (Some v) \<Rightarrow> mascon_loop body indices (j + 1) (mscn_mean[j := Val v]))"

definition points_to_mascons ::
  "GSFCmascons \<Rightarrow> bool list \<Rightarrow> real list \<Rightarrow> real list \<Rightarrow> npfloat list \<Rightarrow> error + npfloat list" where
  "points_to_mascons mascons I lats lons vals =
     (let N_GIS_mascons = length (filter id I);
          mscn_mean = replicate N_GIS_mascons NaN
      in if length I \<noteq> N_mascons mascons then Inl IndexError
         else mascon_loop (cell_mean mascons lats lons vals)
                (filter (\<lambda>i. I ! i) [0..<N_mascons mascons]) 0 mscn_mean)"

section \<open>mascons: change of cmwe between two dates\<close>

text \<open>
  \<^verbatim>\<open>datetime.datetime.strptime(date_str, '%Y-%m-%d')\<close> on ASCII strings: four digits, a
  month written \<^verbatim>\<open>1[0-2]|0[1-9]|[1-9]\<close>, a day written
  \<^verbatim>\<open>3[0-1]|[1-2]\d|0[1-9]|[1-9]| [1-9]\<close>, separated by hyphens, with nothing after the
  day; then the date must exist in the proleptic Gregorian calendar, years 1 to 9999.
\<close>

definition is_digit :: "char \<Rightarrow> bool" where
  "is_digit c = (CHR ''0'' \<le> c \<and> c \<le> CHR ''9'')"

definition digit :: "char \<Rightarrow> int" where
  "digit c = int (of_char c) - 48"

definition is_leap :: "int \<Rightarrow> bool" where
  "is_leap y = (y mod 4 = 0 \<and> (y mod 100 \<noteq> 0 \<or> y mod 400 = 0))"

definition days_in_month :: "int \<Rightarrow> int \<Rightarrow> int" where
  "days_in_month y m =
     (if m = 2 then (if is_leap y then 29 else 28)
      else if m = 4 \<or> m = 6 \<or> m = 9 \<or> m = 11 then 30 else 31)"

fun parse_month :: "string \<Rightarrow> (int \<times> string) option" where
  "parse_month (a # b # c # rest) =
     (if c = CHR ''-'' \<and> ((a = CHR ''1'' \<and> CHR ''0'' \<le> b \<and> b \<le> CHR ''2'')
                          \<or> (a = CHR ''0'' \<and> CHR ''1'' \<le> b \<and> b \<le> CHR ''9''))
      then Some (10 * digit a + digit b, rest)
      else if b = CHR ''-'' \<and> CHR ''1'' \<le> a \<and> a \<le> CHR ''9''
      then Some (digit a, c # rest)
      else None)"
| "parse_month [a, b] =
     (if b = CHR ''-'' \<and> CHR ''1'' \<le> a \<and> a \<le> CHR ''9'' then Some (digit a, []) else None)"
| "parse_month _ = None"

fun parse_day :: "string \<Rightarrow> int option" where
  "parse_day [a, b] =
     (if (a = CHR ''3'' \<and> CHR ''0'' \<le> b \<and> b \<le> CHR ''1'')
         \<or> ((a = CHR ''1'' \<or> a = CHR ''2'') \<and> is_digit b)
         \<or> (a = CHR ''0'' \<and> CHR ''1'' \<le> b \<and> b \<le> CHR ''9'')
      then Some (10 * digit a + digit b)
      else if a = CHR '' '' \<and> CHR ''1'' \<le> b \<and> b \<le> CHR ''9'' then Some (digit b)
      else None)"
| "parse_day [a] = (if CHR ''1'' \<le> a \<and> a \<le> CHR ''9'' then Some (digit a) else None)"
| "parse_day _ = None"

fun strptime_Ymd :: "string \<Rightarrow> error + (int \<times> int \<times> int)" where
  "strptime_Ymd (y1 # y2 # y3 # y4 # sep # rest) =
     (if is_digit y1 \<and> is_digit y2 \<and> is_digit y3 \<and> is_digit y4 \<and> sep = CHR ''-'' then
        (case parse_month rest of
           None \<Rightarrow> Inl BadDateString
         | Some (m, rest') \<Rightarrow>
             (case parse_day rest' of
                None \<Rightarrow> Inl BadDateString
              | Some d \<Rightarrow>
                  (let y = 1000 * digit y1 + 100 * digit y2 + 10 * digit y3 + digit y4 in
                   if 1 \<le> y \<and> d \<le> days_in_month y m then Inr (y, m, d)
                   else Inl BadDateString)))
      else Inl BadDateString)"
| "strptime_Ymd _ = Inl BadDateString"

text \<open>
  The proleptic Gregorian ordinal of a date (day 1 is 0001-01-01), as Python's
  \<^verbatim>\<open>datetime\<close> counts it, and \<^verbatim>\<open>cftime.date2num(date_obj, "days since 2001-12-31")\<close>
  for a date at midnight: the number of days from 2001-12-31 to the date.
\<close>

definition days_before_year :: "int \<Rightarrow> int" where
  "days_before_year y = (y - 1) * 365 + (y - 1) div 4 - (y - 1) div 100 + (y - 1) div 400"

definition days_before_month :: "int \<Rightarrow> int \<Rightarrow> int" where
  "days_before_month y m =
     [0, 31, 59, 90, 120, 151, 181, 212, 243, 273, 304, 334] ! nat (m - 1)
       + (if m > 2 \<and> is_leap y then 1 else 0)"

definition ymd2ord :: "int \<times> int \<times> int \<Rightarrow> int" where
  "ymd2ord date =
     (case date of (y, m, d) \<Rightarrow> days_before_year y + days_before_month y m + d)"

definition YYYY_MM_DD_to_days_since_Jan_0_2002 :: "string \<Rightarrow> error + real" where
  "YYYY_MM_DD_to_days_since_Jan_0_2002 date_str =
     (case strptime_Ymd date_str of
        Inl e \<Rightarrow> Inl e
      | Inr date_obj \<Rightarrow> Inr (real_of_int (ymd2ord date_obj - ymd2ord (2001, 12, 31))))"

text \<open>
  \<^verbatim>\<open>interp1d(x, y, assume_sorted=True, bounds_error=False, fill_value="extrapolate")\<close>
  evaluated at one point, for one row \<open>y\<close> of the array: SciPy's linear kernel finds the
  insertion point of \<open>x_new\<close> (the number of knots below it, on a sorted axis), clips
  it to \<open>1 .. len(x) - 1\<close>, and evaluates the line through the two knots around it. The
  index \<open>-1\<close> that a single knot produces is Python's last element. Where the two
  knots coincide NumPy divides by zero; \<open>NaN\<close> stands for the non-finite outcome.
\<close>

definition searchsorted :: "real list \<Rightarrow> real \<Rightarrow> nat" where
  "searchsorted x v = length (takeWhile (\<lambda>a. a < v) x)"

definition clip :: "nat \<Rightarrow> nat \<Rightarrow> nat \<Rightarrow> nat" where
  "clip a_min a_max a = min a_max (max a_min a)"

definition interp1d_linear :: "real list \<Rightarrow> real list \<Rightarrow> real \<Rightarrow> npfloat" where
  "interp1d_linear x y x_new =
     (let hi = clip 1 (length x - 1) (searchsorted x x_new);
          lo = (if hi = 0 then length x - 1 else hi - 1);
          x_lo = x ! lo; x_hi = x ! hi;
          y_lo = y ! lo; y_hi = y ! hi
      in if x_hi - x_lo = 0 then NaN
         else Val ((y_hi - y_lo) / (x_hi - x_lo) * (x_new - x_lo) + y_lo))"

text \<open>
  \<^verbatim>\<open>calc_mascon_delta_cmwe(mascon, start_date, end_date, I_)\<close>. The result \<open>Inr None\<close>
  is the \<^verbatim>\<open>return None\<close> after a printed error. \<^verbatim>\<open>days_end[-1]\<close> is read only when the
  first test has failed. The boolean index must have one entry per row of \<^verbatim>\<open>cmwe\<close>, and
  \<^verbatim>\<open>interp1d\<close> wants at least one knot and rows as long as the axis.
\<close>

definition calc_mascon_delta_cmwe ::
  "GSFCmascons \<Rightarrow> string \<Rightarrow> string \<Rightarrow> bool list \<Rightarrow> error + npfloat list option" where
  "calc_mascon_delta_cmwe mascon start_date end_date I =
     (case YYYY_MM_DD_to_days_since_Jan_0_2002 start_date of
        Inl e \<Rightarrow> Inl e
      | Inr t_0 \<Rightarrow>
     (case YYYY_MM_DD_to_days_since_Jan_0_2002 end_date of
        Inl e \<Rightarrow> Inl e
      | Inr t_1 \<Rightarrow>
     (case days_start mascon of
        [] \<Rightarrow> Inl IndexError
      | first_start # _ \<Rightarrow>
          if t_0 < first_start then Inr None
          else if days_end mascon = [] then Inl IndexError
          else if t_1 > last (days_end mascon) then Inr None
          else if length I \<noteq> length (cmwe mascon) then Inl IndexError
          else
            (let cmwe_I = map fst (filter snd (zip (cmwe mascon) I)) in
             if days_middle mascon = []
                \<or> \<not> list_all (\<lambda>row. length row = length (days_middle mascon)) cmwe_I
             then Inl InterpShape
             else Inr (Some (map (\<lambda>row. np_sub (interp1d_linear (days_middle mascon) row t_1)
                                                 (interp1d_linear (days_middle mascon) row t_0))
                                 cmwe_I))))))"

section \<open>Notions of the claims\<close>

text \<open>
  Claim C2 speaks of the grid points that enter the masked total. In its words: the
  grid points that fall in some basin polygon, each taken once; and the condition under
  which the join yields no more than that, that no grid point meets two polygons.
\<close>

definition points_in_basins ::
  "((real \<times> real) \<Rightarrow> 'g \<Rightarrow> bool) \<Rightarrow> (real \<times> real) list \<Rightarrow> 'g basin_row list \<Rightarrow> nat list" where
  "points_in_basins intersects points basins_gdf =
     filter (\<lambda>k. list_ex (\<lambda>b. intersects (points ! k) (geometry b)) basins_gdf)
            [0..<length points]"

definition at_most_one_basin ::
  "((real \<times> real) \<Rightarrow> 'g \<Rightarrow> bool) \<Rightarrow> (real \<times> real) list \<Rightarrow> 'g basin_row list \<Rightarrow> bool" where
  "at_most_one_basin intersects points basins_gdf =
     list_all (\<lambda>k. length (filter (\<lambda>b. intersects (points ! k) (geometry b)) basins_gdf) \<le> 1)
              [0..<length points]"

text \<open>
  The reading of claim C4's first clause, for comparison with the source: the number
  of days from 2002-01-01 to the date.
\<close>

definition days_since_2002_01_01 :: "int \<times> int \<times> int \<Rightarrow> real" where
  "days_since_2002_01_01 date = real_of_int (ymd2ord date - ymd2ord (2002, 1, 1))"

text \<open>
  Linear interpolation in the words of claim C4: the value at \<open>t\<close> of the straight line
  through the knots \<open>k\<close> and \<open>k + 1\<close> of a row.
\<close>

definition line_through_knots :: "real list \<Rightarrow> real list \<Rightarrow> nat \<Rightarrow> real \<Rightarrow> real" where
  "line_through_knots x y k t =
     y ! k + (y ! (k + 1) - y ! k) * (t - x ! k) / (x ! (k + 1) - x ! k)"

text \<open>
  Claim C10 speaks of the box that \<^verbatim>\<open>points_to_mascons\<close> bins by. In its words: the box of
  mascon \<open>i\<close> with the bounds center minus and plus half the span; the mean of the
  samples that lie in it and are not NaN, when there is one; and, for a list of selected
  mascons, the means that the function stores, in the order of the selection.
\<close>

definition in_raw_box :: "GSFCmascons \<Rightarrow> nat \<Rightarrow> real \<Rightarrow> real \<Rightarrow> bool" where
  "in_raw_box mascons i la lo =
     (lat_centers mascons ! i - lat_spans mascons ! i / 2 \<le> la
      \<and> la < lat_centers mascons ! i + lat_spans mascons ! i / 2
      \<and> lon_centers mascons ! i - lon_spans mascons ! i / 2 \<le> lo
      \<and> lo < lon_centers mascons ! i + lon_spans mascons ! i / 2)"

definition raw_box_mean ::
  "GSFCmascons \<Rightarrow> real list \<Rightarrow> real list \<Rightarrow> npfloat list \<Rightarrow> nat \<Rightarrow> real option" where
  "raw_box_mean mascons lats lons vals i =
     (let inside = filter (\<lambda>(la, lo, v). in_raw_box mascons i la lo) (zip lats (zip lons vals));
          kept = map nan_to_zero (filter (\<lambda>v. \<not> isnan v) (map (\<lambda>(la, lo, v). v) inside))
      in if kept = [] then None else Some (mean kept))"

fun stored_means :: "(nat \<Rightarrow> real option) \<Rightarrow> nat list \<Rightarrow> real list" where
  "stored_means cell [] = []"
| "stored_means cell (i # indices) =
     (case cell i of
        None \<Rightarrow> stored_means cell indices
      | Some v \<Rightarrow> v # stored_means cell indices)"

section \<open>Example data\<close>

text \<open>The observation series of the end-to-end scenario of the specification.\<close>

definition obs_scenario :: "string \<rightharpoonup> obs_csv" where
  "obs_scenario =
     [''obs.csv'' \<mapsto> \<lparr>Year_column = [2000, 2001, 2002],
                        other_columns = [(''mass'', [100, 90, 70])]\<rparr>]"

text \<open>Two mascons of two degrees by two degrees, centred at latitudes 10 and 20, with
  two monthly solutions.\<close>

definition two_mascons :: mascon_file where
  "two_mascons =
     \<lparr>lat_center = [10, 20], lat_span = [2, 2], lon_center = [0, 0], lon_span = [2, 2],
      location = [1, 1], basin = [1, 1], area_km2 = [1, 1],
      solution_cmwe = [[1, 2], [3, 5]],
      ref_days_first = [1, 32], ref_days_middle = [16, 46], ref_days_last = [31, 59]\<rparr>"

text \<open>A polar cap whose latitude span reaches beyond the pole.\<close>

definition polar_mascon :: mascon_file where
  "polar_mascon =
     \<lparr>lat_center = [- 89.9], lat_span = [1], lon_center = [0], lon_span = [360],
      location = [1], basin = [1], area_km2 = [1],
      solution_cmwe = [[1, 2]],
      ref_days_first = [1, 32], ref_days_middle = [16, 46], ref_days_last = [31, 59]\<rparr>"

text \<open>
  A model on a grid of two by two points with unit spacing: thickness 10 at the start
  of 2000, growing by 5 a year, and no data at the last grid point. With an ice density
  of \<open>10 ^ 12\<close> the scaling factor is 1.
\<close>

definition grid_2x2 :: gis_dataset where
  "grid_2x2 =
     \<lparr>time_data = [\<lparr>calendar = ''noleap'', year = 2000, dayofyr = 1, instant = 0\<rparr>,
                   \<lparr>calendar = ''noleap'', year = 2001, dayofyr = 1, instant = 365\<rparr>],
      x_values = [0, 1],
      y_values = [0, 1],
      lithk_interp = (\<lambda>axis t k. if k = 3 then NaN else Val (10 + 5 * (t - 2000)))\<rparr>"

definition date_2000 :: cftime_date where
  "date_2000 = \<lparr>calendar = ''noleap'', year = 2000, dayofyr = 1, instant = 0\<rparr>"

definition date_2001 :: cftime_date where
  "date_2001 = \<lparr>calendar = ''noleap'', year = 2001, dayofyr = 1, instant = 365\<rparr>"

text \<open>Polygons given by the grid points they contain.\<close>

definition covers :: "(real \<times> real) \<Rightarrow> (real \<times> real) list \<Rightarrow> bool" where
  "covers p g = (p \<in> set g)"

definition basin_row :: "(real \<times> real) list \<Rightarrow> string \<Rightarrow> string \<Rightarrow> (real \<times> real) list basin_row" where
  "basin_row g name region =
     \<lparr>geometry = g, SUBREGION1 = name, Subregion = name, Regions = region\<rparr>"

definition overlapping_basins :: "(real \<times> real) list basin_row list" where
  "overlapping_basins = [basin_row [(0, 0)] ''A'' ''East'', basin_row [(0, 0)] ''B'' ''West'']"

definition covering_basins :: "(real \<times> real) list basin_row list" where
  "covering_basins =
     [basin_row [(0, 0), (0, 1)] ''A'' ''East'', basin_row [(1, 0), (1, 1)] ''B'' ''West'']"

definition disjoint_basins :: "(real \<times> real) list basin_row list" where
  "disjoint_basins = [basin_row [(0, 0)] ''A'' ''East'', basin_row [(0, 1)] ''B'' ''West'']"

text \<open>Three regional observation files, and the model result of one date with its
  region sums.\<close>

definition regional_fs :: "string \<rightharpoonup> obs_csv" where
  "regional_fs =
     [''east.csv'' \<mapsto> \<lparr>Year_column = [2000, 2001], other_columns = [(''mass'', [100, 90])]\<rparr>,
      ''west.csv'' \<mapsto> \<lparr>Year_column = [2000, 2001], other_columns = [(''mass'', [50, 30])]\<rparr>,
      ''peninsula.csv'' \<mapsto> \<lparr>Year_column = [2000, 2001], other_columns = [(''mass'', [20, 15])]\<rparr>]"

definition ais_result :: "real \<rightharpoonup> mass_change_record" where
  "ais_result =
     [2001 \<mapsto> \<lparr>model_total_mass_balance_unmasked = - 40,
                model_total_mass_balance_masked = - 36,
                basin_mass_change_sums = [(''A'', - 12), (''B'', - 24)],
                region_mass_change_sums = Some [(''East'', - 12), (''West'', - 24)]\<rparr>]"

definition imbie_total_2001 :: "obs_row list" where
  "imbie_total_2001 = [\<lparr>Year = 2001, mass_balance = 135, IMBIE_Mass_Change = - 35\<rparr>]"

text \<open>
  The same model on a grid with spacing 2 along x and 3 along y, and two basins holding
  one corner of the grid each.
\<close>

definition grid_2x3 :: gis_dataset where
  "grid_2x3 =
     \<lparr>time_data = [\<lparr>calendar = ''noleap'', year = 2000, dayofyr = 1, instant = 0\<rparr>,
                   \<lparr>calendar = ''noleap'', year = 2001, dayofyr = 1, instant = 365\<rparr>],
      x_values = [0, 2],
      y_values = [0, 3],
      lithk_interp = (\<lambda>axis t k. if k = 3 then NaN else Val (10 + 5 * (t - 2000)))\<rparr>"

definition corner_basins :: "(real \<times> real) list basin_row list" where
  "corner_basins = [basin_row [(0, 0)] ''A'' ''East'', basin_row [(2, 3)] ''B'' ''West'']"

text \<open>A mascon set with a single monthly solution.\<close>

definition one_solution :: mascon_file where
  "one_solution =
     \<lparr>lat_center = [10], lat_span = [2], lon_center = [0], lon_span = [2],
      location = [1], basin = [1], area_km2 = [1],
      solution_cmwe = [[1]],
      ref_days_first = [1], ref_days_middle = [16], ref_days_last = [31]\<rparr>"

section \<open>Properties: calendar and range check\<close>

lemma np_min_Min: "np_min (x # xs) = Inr (Min (set (x # xs)))"
  by (simp only: np_min.simps Min.set_eq_fold)

lemma np_max_Max: "np_max (x # xs) = Inr (Max (set (x # xs)))"
  by (simp only: np_max.simps Max.set_eq_fold)

text \<open>
  Claim C9. \<^verbatim>\<open>days_in_year\<close> is 365 on the calendars \<^verbatim>\<open>365_day\<close> and \<^verbatim>\<open>noleap\<close>, 366 on
  \<^verbatim>\<open>366_day\<close> and \<^verbatim>\<open>all_leap\<close>, 360 on \<^verbatim>\<open>360_day\<close>, and on every other calendar
  identifier 366 when the library's leap-year predicate holds of the date's year and
  calendar, 365 otherwise.
\<close>

theorem days_in_year_by_calendar:
  "(calendar date \<in> {''365_day'', ''noleap''} \<longrightarrow> days_in_year leap date = 365)
   \<and> (calendar date \<in> {''366_day'', ''all_leap''} \<longrightarrow> days_in_year leap date = 366)
   \<and> (calendar date = ''360_day'' \<longrightarrow> days_in_year leap date = 360)
   \<and> (calendar date \<notin> {''365_day'', ''noleap'', ''366_day'', ''all_leap'', ''360_day''} \<longrightarrow>
        days_in_year leap date = (if leap (year date) (calendar date) then 366 else 365))"
  by (auto simp: days_in_year_def)

theorem days_in_year_by_calendar_witness:
  "days_in_year gregorian_leap \<lparr>calendar = ''noleap'', year = 2000, dayofyr = 1, instant = 0\<rparr> = 365
   \<and> days_in_year gregorian_leap \<lparr>calendar = ''all_leap'', year = 2001, dayofyr = 1, instant = 0\<rparr> = 366
   \<and> days_in_year gregorian_leap \<lparr>calendar = ''360_day'', year = 2000, dayofyr = 1, instant = 0\<rparr> = 360
   \<and> days_in_year gregorian_leap \<lparr>calendar = ''standard'', year = 2000, dayofyr = 1, instant = 0\<rparr> = 366
   \<and> days_in_year gregorian_leap \<lparr>calendar = ''standard'', year = 1900, dayofyr = 1, instant = 0\<rparr> = 365"
  using days_in_year_by_calendar
    [of "\<lparr>calendar = ''noleap'', year = 2000, dayofyr = 1, instant = 0\<rparr>" gregorian_leap]
    days_in_year_by_calendar
    [of "\<lparr>calendar = ''all_leap'', year = 2001, dayofyr = 1, instant = 0\<rparr>" gregorian_leap]
    days_in_year_by_calendar
    [of "\<lparr>calendar = ''360_day'', year = 2000, dayofyr = 1, instant = 0\<rparr>" gregorian_leap]
    days_in_year_by_calendar
    [of "\<lparr>calendar = ''standard'', year = 2000, dayofyr = 1, instant = 0\<rparr>" gregorian_leap]
    days_in_year_by_calendar
    [of "\<lparr>calendar = ''standard'', year = 1900, dayofyr = 1, instant = 0\<rparr>" gregorian_leap]
  by (simp add: gregorian_leap_def)

text \<open>
  Claim C3. On a non-empty time coordinate, \<^verbatim>\<open>check_datarange\<close> raises its ValueError
  exactly when the start date or the end date lies outside the closed interval from the
  least to the greatest time value, and it does not raise when an endpoint equals a
  boundary value.
\<close>

theorem check_datarange_raises_iff:
  assumes "time_values \<noteq> []"
  shows "(check_datarange time_values s e = Inl DatesOutOfRange
            \<longleftrightarrow> s \<notin> {Min (set time_values) .. Max (set time_values)}
                \<or> e \<notin> {Min (set time_values) .. Max (set time_values)})
         \<and> (check_datarange time_values s e = Inr ()
            \<longleftrightarrow> s \<in> {Min (set time_values) .. Max (set time_values)}
                \<and> e \<in> {Min (set time_values) .. Max (set time_values)})
         \<and> check_datarange time_values (Min (set time_values)) (Max (set time_values)) = Inr ()
         \<and> check_datarange time_values (Max (set time_values)) (Min (set time_values)) = Inr ()"
proof -
  obtain x xs where ts: "time_values = x # xs"
    using assms by (cases time_values) auto
  have lo: "np_min time_values = Inr (Min (set time_values))"
    unfolding ts by (rule np_min_Min)
  have hi: "np_max time_values = Inr (Max (set time_values))"
    unfolding ts by (rule np_max_Max)
  have le: "Min (set time_values) \<le> Max (set time_values)"
    using assms by (simp add: Min_le_iff)
  show ?thesis
    using le by (auto simp: check_datarange_def lo hi)
qed

theorem check_datarange_raises_iff_witness:
  "check_datarange [2, 5, 9 :: int] 2 9 = Inr ()
   \<and> check_datarange [2, 5, 9 :: int] 1 9 = Inl DatesOutOfRange
   \<and> check_datarange [2, 5, 9 :: int] 2 10 = Inl DatesOutOfRange"
  using check_datarange_raises_iff [of "[2, 5, 9 :: int]" 2 9]
    check_datarange_raises_iff [of "[2, 5, 9 :: int]" 1 9]
    check_datarange_raises_iff [of "[2, 5, 9 :: int]" 2 10]
  by simp

section \<open>Properties: observation series\<close>

lemma mass_changes_loop_map:
  "mass_changes_loop previous rows = map (\<lambda>r. snd r - previous) rows"
  by (induction rows) (simp_all add: Let_def)

text \<open>
  Claim C1. The claim asks for successive differences seeded by the start value, so
  for the rows (2000, 100), (2001, 90), (2002, 70) with start 2000 and end 2002 the
  deltas \<open>[-10, -20]\<close>; the comments of the loop speak of the change from the previous
  day's balance as well. The loop of \<^verbatim>\<open>sum_MassBalance\<close> never updates the previous
  value: on the scenario it returns the deltas \<open>[-10, -30]\<close>, each row's value minus the
  start value.
\<close>

theorem sum_MassBalance_scenario:
  "sum_MassBalance obs_scenario ''obs.csv'' 2000 2002 ''mass''
     = Inr [\<lparr>Year = 2001, mass_balance = 90, IMBIE_Mass_Change = - 10\<rparr>,
            \<lparr>Year = 2002, mass_balance = 70, IMBIE_Mass_Change = - 30\<rparr>]"
  by (simp add: sum_MassBalance_def obs_scenario_def read_csv_def get_column_def)

section \<open>Properties: the loop over the dates\<close>

lemma model_loop_lookup:
  assumes "model_loop step ys acc = Inr res" and "res t = Some r"
  shows "(t \<in> set ys \<and> step t = Inr r) \<or> (t \<notin> set ys \<and> acc t = Some r)"
  using assms
proof (induction ys arbitrary: acc)
  case Nil
  then show ?case by simp
next
  case (Cons y ys)
  then obtain r' where st: "step y = Inr r'"
    and run: "model_loop step ys (acc(y \<mapsto> r')) = Inr res"
    by (auto split: sum.splits)
  from Cons.IH[OF run Cons.prems(2)] show ?case
    using st by (auto split: if_splits)
qed

lemma process_model_data_record:
  assumes run: "process_model_data is_leap_year intersects gis_ds basins_gdf imbie_years
                  start_date_cftime end_date_cftime start_date_fract rho_ice icesheet = Inr res"
    and rec: "res t = Some r"
  shows "\<exists>x_resolution y_resolution.
           resolution (x_values gis_ds) = Inr x_resolution
         \<and> resolution (y_values gis_ds) = Inr y_resolution
         \<and> t \<in> set imbie_years
         \<and> aggregate_step icesheet
             (lithk_delta_step
                (lithk_interp gis_ds (map (fractional_year is_leap_year) (time_data gis_ds)) t)
                (lithk_interp gis_ds (map (fractional_year is_leap_year) (time_data gis_ds))
                   start_date_fract)
                (length (List.product (x_values gis_ds) (y_values gis_ds)))
                x_resolution y_resolution rho_ice)
             (sjoin intersects (List.product (x_values gis_ds) (y_values gis_ds)) basins_gdf)
           = Inr r"
proof -
  from run obtain xr yr where xr: "resolution (x_values gis_ds) = Inr xr"
    and yr: "resolution (y_values gis_ds) = Inr yr"
    and loop: "model_loop
                 (\<lambda>time_step.
                    aggregate_step icesheet
                      (lithk_delta_step
                         (lithk_interp gis_ds (map (fractional_year is_leap_year) (time_data gis_ds)) time_step)
                         (lithk_interp gis_ds (map (fractional_year is_leap_year) (time_data gis_ds))
                            start_date_fract)
                         (length (List.product (x_values gis_ds) (y_values gis_ds))) xr yr rho_ice)
                      (sjoin intersects (List.product (x_values gis_ds) (y_values gis_ds)) basins_gdf))
                 imbie_years Map.empty = Inr res"
    unfolding process_model_data_def Let_def
    by (auto split: sum.splits)
  from model_loop_lookup[OF loop rec] show ?thesis
    using xr yr by auto
qed

section \<open>Properties: model mass change\<close>

lemma resolution_Inr:
  assumes "resolution coords = Inr v"
  shows "2 \<le> length coords \<and> v = \<bar>coords ! 1 - coords ! 0\<bar>"
  using assms by (cases coords rule: resolution.cases) auto

lemma lithk_delta_step_formula:
  "lithk_delta_step lithk_current lithk_start n x_resolution y_resolution rho_ice
     = map (\<lambda>k. case np_sub (lithk_current k) (lithk_start k) of
                   NaN \<Rightarrow> 0
                 | Val d \<Rightarrow> d * (x_resolution * y_resolution * rho_ice * (1 / 10 ^ 12)))
           [0..<n]"
  by (auto simp: lithk_delta_step_def split: npfloat.split)

text \<open>
  Claim C8. For every date that \<^verbatim>\<open>process_model_data\<close> has processed, the record of that
  date is aggregated from the list of per-cell deltas in which the delta of grid cell
  \<open>k\<close> is the interpolated snapshot at that date minus the interpolated snapshot at the
  start date, multiplied by x-resolution * y-resolution * ice density * 1e-12, with the
  resolutions \<open>|x[1] - x[0]|\<close> and \<open>|y[1] - y[0]|\<close>, and is zero where the difference of the
  snapshots is NaN: the NaN is replaced before the scaling. The unmasked total of the
  record is the sum of these deltas.
\<close>

theorem process_model_data_cell_delta:
  fixes gis_ds :: gis_dataset
  assumes run: "process_model_data is_leap_year intersects gis_ds basins_gdf imbie_years
                  start_date_cftime end_date_cftime start_date_fract rho_ice icesheet = Inr res"
    and rec: "res time_step = Some r"
  defines "time_axis \<equiv> map (fractional_year is_leap_year) (time_data gis_ds)"
  defines "points \<equiv> List.product (x_values gis_ds) (y_values gis_ds)"
  defines "cell_delta \<equiv> \<lambda>k.
             (case np_sub (lithk_interp gis_ds time_axis time_step k)
                          (lithk_interp gis_ds time_axis start_date_fract k) of
                NaN \<Rightarrow> 0
              | Val d \<Rightarrow> d * (\<bar>x_values gis_ds ! 1 - x_values gis_ds ! 0\<bar>
                              * \<bar>y_values gis_ds ! 1 - y_values gis_ds ! 0\<bar>
                              * rho_ice * (1 / 10 ^ 12)))"
  shows "time_step \<in> set imbie_years
       \<and> 2 \<le> length (x_values gis_ds) \<and> 2 \<le> length (y_values gis_ds)
       \<and> aggregate_step icesheet (map cell_delta [0..<length points])
            (sjoin intersects points basins_gdf) = Inr r
       \<and> model_total_mass_balance_unmasked r = sum_list (map cell_delta [0..<length points])"
proof -
  from process_model_data_record[OF run rec]
  obtain xr yr where xr: "resolution (x_values gis_ds) = Inr xr"
    and yr: "resolution (y_values gis_ds) = Inr yr"
    and mem: "time_step \<in> set imbie_years"
    and step: "aggregate_step icesheet
                 (lithk_delta_step (lithk_interp gis_ds time_axis time_step)
                    (lithk_interp gis_ds time_axis start_date_fract) (length points) xr yr rho_ice)
                 (sjoin intersects points basins_gdf) = Inr r"
    unfolding time_axis_def points_def by blast
  have xr_eq: "xr = \<bar>x_values gis_ds ! 1 - x_values gis_ds ! 0\<bar>"
    using resolution_Inr[OF xr] by simp
  have yr_eq: "yr = \<bar>y_values gis_ds ! 1 - y_values gis_ds ! 0\<bar>"
    using resolution_Inr[OF yr] by simp
  have delta: "lithk_delta_step (lithk_interp gis_ds time_axis time_step)
                 (lithk_interp gis_ds time_axis start_date_fract) (length points) xr yr rho_ice
               = map cell_delta [0..<length points]"
    unfolding cell_delta_def xr_eq yr_eq by (rule lithk_delta_step_formula)
  have agg: "aggregate_step icesheet (map cell_delta [0..<length points])
               (sjoin intersects points basins_gdf) = Inr r"
    using step unfolding delta .
  have "model_total_mass_balance_unmasked r = sum_list (map cell_delta [0..<length points])"
    using agg by (auto simp: aggregate_step_def Let_def split: if_splits)
  then show ?thesis
    using mem agg resolution_Inr[OF xr] resolution_Inr[OF yr] by simp
qed

lemmas cell_eval =
  grid_2x3_def date_2000_def date_2001_def covers_def basin_row_def corner_basins_def
  process_model_data_def check_datarange_def fractional_year_def days_in_year_def
  lithk_delta_step_def sjoin_def groupby_sum_def aggregate_step_def

theorem process_model_data_cell_delta_witness:
  "process_model_data gregorian_leap covers grid_2x3 corner_basins [2001]
       date_2000 date_2001 2000 (10 ^ 12) ''GIS''
     = Inr [2001 \<mapsto> \<lparr>model_total_mass_balance_unmasked = 90,
                     model_total_mass_balance_masked = 30,
                     basin_mass_change_sums = [(''A'', 30), (''B'', 0)],
                     region_mass_change_sums = None\<rparr>]
   \<and> aggregate_step ''GIS'' [5 * (2 * 3), 5 * (2 * 3), 5 * (2 * 3), 0]
        (sjoin covers (List.product (x_values grid_2x3) (y_values grid_2x3)) corner_basins)
     = Inr \<lparr>model_total_mass_balance_unmasked = 90,
            model_total_mass_balance_masked = 30,
            basin_mass_change_sums = [(''A'', 30), (''B'', 0)],
            region_mass_change_sums = None\<rparr>"
  using process_model_data_cell_delta [of gregorian_leap covers grid_2x3 corner_basins "[2001]"
          date_2000 date_2001 2000 "10 ^ 12" "''GIS''"
          "[2001 \<mapsto> \<lparr>model_total_mass_balance_unmasked = 90,
                       model_total_mass_balance_masked = 30,
                       basin_mass_change_sums = [(''A'', 30), (''B'', 0)],
                       region_mass_change_sums = None\<rparr>]"
          2001
          "\<lparr>model_total_mass_balance_unmasked = 90,
            model_total_mass_balance_masked = 30,
            basin_mass_change_sums = [(''A'', 30), (''B'', 0)],
            region_mass_change_sums = None\<rparr>"]
  by (simp add: cell_eval)

section \<open>Properties: group sums and the join\<close>

lemma sum_list_by_key:
  fixes f :: "'a \<Rightarrow> real"
  shows "(\<Sum>l \<in> set (map key xs). sum_list (map f (filter (\<lambda>x. key x = l) xs)))
           = sum_list (map f xs)"
proof (induction xs)
  case Nil
  then show ?case by simp
next
  case (Cons x xs)
  let ?K = "set (map key xs)"
  let ?g = "\<lambda>l. sum_list (map f (filter (\<lambda>x. key x = l) xs))"
  have zero: "key x \<notin> ?K \<Longrightarrow> ?g (key x) = 0"
  proof -
    assume "key x \<notin> ?K"
    then have "\<And>y. y \<in> set xs \<Longrightarrow> key y \<noteq> key x"
      by (metis image_eqI set_map)
    then have "filter (\<lambda>y. key y = key x) xs = []"
      by (simp add: filter_empty_conv)
    then show ?thesis by simp
  qed
  have "(\<Sum>l \<in> set (map key (x # xs)). sum_list (map f (filter (\<lambda>y. key y = l) (x # xs))))
          = (\<Sum>l \<in> insert (key x) ?K. (if l = key x then f x else 0) + ?g l)"
    by (intro sum.cong) auto
  also have "\<dots> = (\<Sum>l \<in> insert (key x) ?K. (if l = key x then f x else 0))
                    + (\<Sum>l \<in> insert (key x) ?K. ?g l)"
    by (simp add: sum.distrib)
  also have "(\<Sum>l \<in> insert (key x) ?K. (if l = key x then f x else 0)) = f x"
    by (simp add: sum.delta)
  also have "(\<Sum>l \<in> insert (key x) ?K. ?g l) = (\<Sum>l \<in> ?K. ?g l)"
    using zero by (cases "key x \<in> ?K") (simp_all add: insert_absorb)
  finally show ?case using Cons.IH by simp
qed

lemma groupby_sum_total:
  "sum_list (map snd (groupby_sum column lithk_delta joined_gdf))
     = sum_list (map (\<lambda>r. lithk_delta ! fst r) joined_gdf)"
proof -
  let ?ks = "sort (remdups (map (\<lambda>r. column (snd r)) joined_gdf))"
  let ?g = "\<lambda>l. sum_list (map (\<lambda>r. lithk_delta ! fst r)
                              (filter (\<lambda>r. column (snd r) = l) joined_gdf))"
  have "sum_list (map snd (groupby_sum column lithk_delta joined_gdf)) = sum_list (map ?g ?ks)"
    by (simp add: groupby_sum_def comp_def)
  also have "\<dots> = sum ?g (set ?ks)"
    by (rule sum_list_distinct_conv_sum_set) simp
  also have "set ?ks = set (map (\<lambda>r. column (snd r)) joined_gdf)"
    by simp
  also have "sum ?g (set (map (\<lambda>r. column (snd r)) joined_gdf))
               = sum_list (map (\<lambda>r. lithk_delta ! fst r) joined_gdf)"
    by (rule sum_list_by_key)
  finally show ?thesis .
qed

lemma sum_list_concat_real:
  fixes xss :: "real list list"
  shows "sum_list (concat xss) = sum_list (map sum_list xss)"
  by (induction xss) simp_all

lemma sjoin_sum:
  fixes lithk_delta :: "real list"
  shows "sum_list (map (\<lambda>r. lithk_delta ! fst r) (sjoin intersects points basins_gdf))
     = (\<Sum>k\<leftarrow>[0..<length points].
          real (length (filter (\<lambda>b. intersects (points ! k) (geometry b)) basins_gdf))
            * lithk_delta ! k)"
  by (simp add: sjoin_def map_concat sum_list_concat_real comp_def sum_list_triv)

lemma sjoin_sum_once:
  fixes lithk_delta :: "real list"
  assumes "at_most_one_basin intersects points basins_gdf"
  shows "sum_list (map (\<lambda>r. lithk_delta ! fst r) (sjoin intersects points basins_gdf))
           = sum_list (map (\<lambda>k. lithk_delta ! k) (points_in_basins intersects points basins_gdf))"
proof -
  let ?P = "\<lambda>k b. intersects (points ! k) (geometry b)"
  have one: "real (length (filter (?P k) basins_gdf)) * lithk_delta ! k
               = (if list_ex (?P k) basins_gdf then lithk_delta ! k else 0)"
    if "k \<in> set [0..<length points]" for k
  proof -
    from assms that have le: "length (filter (?P k) basins_gdf) \<le> 1"
      by (simp add: at_most_one_basin_def list_all_iff)
    show ?thesis
    proof (cases "list_ex (?P k) basins_gdf")
      case True
      then have "filter (?P k) basins_gdf \<noteq> []"
        by (simp add: list_ex_iff filter_empty_conv)
      then have "length (filter (?P k) basins_gdf) = 1"
        using le by (cases "filter (?P k) basins_gdf") auto
      then show ?thesis using True by simp
    next
      case False
      then have "filter (?P k) basins_gdf = []"
        by (simp add: list_ex_iff filter_empty_conv)
      then show ?thesis using False by simp
    qed
  qed
  have "sum_list (map (\<lambda>r. lithk_delta ! fst r) (sjoin intersects points basins_gdf))
          = (\<Sum>k\<leftarrow>[0..<length points].
               if list_ex (?P k) basins_gdf then lithk_delta ! k else 0)"
    unfolding sjoin_sum using one by (intro arg_cong[where f = sum_list] map_cong) auto
  also have "\<dots> = sum_list (map (\<lambda>k. lithk_delta ! k)
                               (points_in_basins intersects points basins_gdf))"
    by (simp add: points_in_basins_def sum_list_map_filter')
  finally show ?thesis .
qed

lemma aggregate_step_totals:
  assumes "aggregate_step icesheet lithk_delta joined_gdf = Inr r"
  shows "model_total_mass_balance_unmasked r = sum_list lithk_delta"
    and "model_total_mass_balance_masked r = sum_list (map snd (basin_mass_change_sums r))"
    and "model_total_mass_balance_masked r = sum_list (map (\<lambda>row. lithk_delta ! fst row) joined_gdf)"
  using assms
  by (auto simp: aggregate_step_def Let_def groupby_sum_total split: if_splits)

lemmas grid_eval =
  grid_2x2_def date_2000_def date_2001_def covers_def basin_row_def
  process_model_data_def check_datarange_def fractional_year_def days_in_year_def
  lithk_delta_step_def sjoin_def groupby_sum_def aggregate_step_def
  points_in_basins_def at_most_one_basin_def

text \<open>
  Claim C2, as stated, fails in two ways. The inner join has one row for every pair of a
  grid point and a polygon that intersect, so a grid point in two polygons enters the
  masked total twice: on the example grid only point 0 lies in a basin and its delta
  is 5, yet the masked total is 10. And the points in basins need not be a strict subset
  of the grid: with the covering layer they are all four points.
\<close>

theorem masked_total_counts_overlap:
  "process_model_data gregorian_leap covers grid_2x2 overlapping_basins [2001]
       date_2000 date_2001 2000 (10 ^ 12) ''GIS''
     = Inr [2001 \<mapsto> \<lparr>model_total_mass_balance_unmasked = 15,
                     model_total_mass_balance_masked = 10,
                     basin_mass_change_sums = [(''A'', 5), (''B'', 5)],
                     region_mass_change_sums = None\<rparr>]
   \<and> lithk_delta_step (lithk_interp grid_2x2 [2000, 2001] 2001) (lithk_interp grid_2x2 [2000, 2001] 2000)
        4 1 1 (10 ^ 12) = [5, 5, 5, 0]
   \<and> points_in_basins covers (List.product (x_values grid_2x2) (y_values grid_2x2))
        overlapping_basins = [0]
   \<and> points_in_basins covers (List.product (x_values grid_2x2) (y_values grid_2x2))
        covering_basins = [0, 1, 2, 3]"
  by (simp add: grid_eval overlapping_basins_def covering_basins_def upt_conv_Cons)

text \<open>
  Claim C2, amended. For every date that \<^verbatim>\<open>process_model_data\<close> has processed, the masked
  total of its record is the sum of the per-basin totals, the unmasked total is the sum
  of the deltas of all grid points, and the masked total is the sum of the deltas over
  the rows of the join, one row for each intersecting pair of a grid point and a basin
  polygon. When no grid point intersects more than one polygon, the masked total is the
  sum of the deltas over the grid points that lie in some basin, each taken once, and
  these points are a subset, not necessarily strict, of the grid points of the unmasked
  total.
\<close>

theorem masked_total_from_join:
  fixes gis_ds :: gis_dataset
  assumes run: "process_model_data is_leap_year intersects gis_ds basins_gdf imbie_years
                  start_date_cftime end_date_cftime start_date_fract rho_ice icesheet = Inr res"
    and rec: "res t = Some r"
    and xr: "resolution (x_values gis_ds) = Inr x_resolution"
    and yr: "resolution (y_values gis_ds) = Inr y_resolution"
  defines "points \<equiv> List.product (x_values gis_ds) (y_values gis_ds)"
  defines "time_axis \<equiv> map (fractional_year is_leap_year) (time_data gis_ds)"
  defines "lithk_delta \<equiv>
             lithk_delta_step (lithk_interp gis_ds time_axis t)
               (lithk_interp gis_ds time_axis start_date_fract)
               (length points) x_resolution y_resolution rho_ice"
  shows "model_total_mass_balance_masked r = sum_list (map snd (basin_mass_change_sums r))
       \<and> model_total_mass_balance_unmasked r = sum_list (map (\<lambda>k. lithk_delta ! k) [0..<length points])
       \<and> model_total_mass_balance_masked r
           = sum_list (map (\<lambda>row. lithk_delta ! fst row) (sjoin intersects points basins_gdf))
       \<and> (at_most_one_basin intersects points basins_gdf \<longrightarrow>
            model_total_mass_balance_masked r
              = sum_list (map (\<lambda>k. lithk_delta ! k) (points_in_basins intersects points basins_gdf)))
       \<and> distinct (points_in_basins intersects points basins_gdf)
       \<and> set (points_in_basins intersects points basins_gdf) \<subseteq> set [0..<length points]"
proof -
  from process_model_data_record[OF run rec] xr yr
  have step: "aggregate_step icesheet lithk_delta (sjoin intersects points basins_gdf) = Inr r"
    by (auto simp: points_def time_axis_def lithk_delta_def)
  have len: "length lithk_delta = length points"
    by (simp add: lithk_delta_def lithk_delta_step_def)
  have all: "map (\<lambda>k. lithk_delta ! k) [0..<length points] = lithk_delta"
    using len by (metis map_nth)
  show ?thesis
    using aggregate_step_totals[OF step] sjoin_sum_once[of intersects points basins_gdf lithk_delta]
    by (auto simp: all points_in_basins_def)
qed

theorem masked_total_from_join_witness:
  "process_model_data gregorian_leap covers grid_2x2 disjoint_basins [2001]
       date_2000 date_2001 2000 (10 ^ 12) ''AIS''
     = Inr [2001 \<mapsto> \<lparr>model_total_mass_balance_unmasked = 15,
                     model_total_mass_balance_masked = 10,
                     basin_mass_change_sums = [(''A'', 5), (''B'', 5)],
                     region_mass_change_sums = Some [(''East'', 5), (''West'', 5)]\<rparr>]
   \<and> at_most_one_basin covers (List.product (x_values grid_2x2) (y_values grid_2x2)) disjoint_basins
   \<and> points_in_basins covers (List.product (x_values grid_2x2) (y_values grid_2x2))
        disjoint_basins = [0, 1]
   \<and> (10 :: real) = sum_list (map snd [(''A'', 5 :: real), (''B'', 5)])"
  using masked_total_from_join [of gregorian_leap covers grid_2x2 disjoint_basins "[2001]"
          date_2000 date_2001 2000 "10 ^ 12" "''AIS''"
          "[2001 \<mapsto> \<lparr>model_total_mass_balance_unmasked = 15,
                       model_total_mass_balance_masked = 10,
                       basin_mass_change_sums = [(''A'', 5), (''B'', 5)],
                       region_mass_change_sums = Some [(''East'', 5), (''West'', 5)]\<rparr>]"
          2001
          "\<lparr>model_total_mass_balance_unmasked = 15,
            model_total_mass_balance_masked = 10,
            basin_mass_change_sums = [(''A'', 5), (''B'', 5)],
            region_mass_change_sums = Some [(''East'', 5), (''West'', 5)]\<rparr>" 1 1]
  by (simp add: grid_eval disjoint_basins_def)

section \<open>Properties: residuals\<close>

lemma regional_files_None:
  "regional_files fs e w p = None
     \<longleftrightarrow> \<not> (file_given_and_exists fs e \<and> file_given_and_exists fs w \<and> file_given_and_exists fs p)"
  by (auto simp: regional_files_def file_given_and_exists_def split: option.splits)

text \<open>
  Claim C7. For the Antarctic ice sheet, when one of the three regional files is not
  given or does not exist, \<^verbatim>\<open>process_IMBIE\<close> returns the residuals of the totals with no
  regional summary at all and the flag \<^verbatim>\<open>'NO'\<close>; and whenever it returns, the flag is
  \<^verbatim>\<open>'YES'\<close> exactly when all three files are given and exist, \<^verbatim>\<open>'NO'\<close> otherwise, and a
  regional summary is present exactly in the first case.
\<close>

theorem regional_all_or_nothing:
  assumes ais: "icesheet = ''AIS''"
  shows "(\<not> (file_given_and_exists fs obs_east_filename
              \<and> file_given_and_exists fs obs_west_filename
              \<and> file_given_and_exists fs obs_peninsula_filename)
          \<longrightarrow> process_IMBIE fs obs_filename start_date_fract end_date_fract icesheet basin_result imbie_total
                 mass_balance_column obs_east_filename obs_west_filename obs_peninsula_filename
               = Inr \<lparr>per_date = totals_loop basin_result imbie_total Map.empty,
                      Regional_Mass_Change_Summary = None,
                      print_regionalresult_check = ''NO''\<rparr>)
       \<and> (\<forall>res. process_IMBIE fs obs_filename start_date_fract end_date_fract icesheet basin_result imbie_total
                   mass_balance_column obs_east_filename obs_west_filename obs_peninsula_filename
                 = Inr res
              \<longrightarrow> (print_regionalresult_check res = ''YES''
                     \<longleftrightarrow> file_given_and_exists fs obs_east_filename
                         \<and> file_given_and_exists fs obs_west_filename
                         \<and> file_given_and_exists fs obs_peninsula_filename)
                \<and> (print_regionalresult_check res = ''NO''
                     \<longleftrightarrow> \<not> (file_given_and_exists fs obs_east_filename
                            \<and> file_given_and_exists fs obs_west_filename
                            \<and> file_given_and_exists fs obs_peninsula_filename))
                \<and> (Regional_Mass_Change_Summary res \<noteq> None
                     \<longleftrightarrow> file_given_and_exists fs obs_east_filename
                         \<and> file_given_and_exists fs obs_west_filename
                         \<and> file_given_and_exists fs obs_peninsula_filename))"
proof (cases "regional_files fs obs_east_filename obs_west_filename obs_peninsula_filename")
  case None
  then show ?thesis
    using ais regional_files_None[of fs obs_east_filename obs_west_filename obs_peninsula_filename]
    by (auto simp: process_IMBIE_def no_regional_def Let_def)
next
  case (Some names)
  then have all3: "file_given_and_exists fs obs_east_filename
                   \<and> file_given_and_exists fs obs_west_filename
                   \<and> file_given_and_exists fs obs_peninsula_filename"
    using regional_files_None[of fs obs_east_filename obs_west_filename obs_peninsula_filename]
    by simp
  show ?thesis
    using ais Some all3
    by (auto simp: process_IMBIE_def Let_def split: sum.splits prod.splits)
qed

lemmas imbie_eval =
  process_IMBIE_def regional_files_def file_given_and_exists_def no_regional_def
  sum_MassBalance_def read_csv_def get_column_def region_update_def setdefault_def
  regional_fs_def ais_result_def imbie_total_2001_def

theorem regional_all_or_nothing_witness:
  "process_IMBIE regional_fs ''obs.csv'' 2000 2001 ''AIS'' ais_result imbie_total_2001 ''mass''
       (Some ''east.csv'') (Some ''west.csv'') (Some ''missing.csv'')
     = Inr \<lparr>per_date = [2001 \<mapsto> \<lparr>IMBIE_total_mass_change_sum = - 35,
                                   Delta_MassChange_masked = 1,
                                   Delta_MassChange_unmasked = 5\<rparr>],
            Regional_Mass_Change_Summary = None,
            print_regionalresult_check = ''NO''\<rparr>
   \<and> process_IMBIE regional_fs ''obs.csv'' 2000 2001 ''AIS'' ais_result imbie_total_2001 ''mass''
       (Some ''east.csv'') (Some ''west.csv'') (Some ''peninsula.csv'')
     = Inr \<lparr>per_date = [2001 \<mapsto> \<lparr>IMBIE_total_mass_change_sum = - 35,
                                   Delta_MassChange_masked = 1,
                                   Delta_MassChange_unmasked = 5\<rparr>],
            Regional_Mass_Change_Summary =
              Some [2001 \<mapsto> \<lparr>East = Some (- 10, 2), West = Some (- 20, 4), Peninsula = None\<rparr>],
            print_regionalresult_check = ''YES''\<rparr>"
  using regional_all_or_nothing [of "''AIS''" regional_fs "Some ''east.csv''" "Some ''west.csv''"
          "Some ''missing.csv''" "''obs.csv''" 2000 2001 ais_result imbie_total_2001 "''mass''"]
    regional_all_or_nothing [of "''AIS''" regional_fs "Some ''east.csv''" "Some ''west.csv''"
          "Some ''peninsula.csv''" "''obs.csv''" 2000 2001 ais_result imbie_total_2001 "''mass''"]
  by (simp add: imbie_eval)

section \<open>Properties: mascons\<close>

lemmas mascon_eval =
  GSFCmascons_init_def clamped_lats_def lower_bounds_def upper_bounds_def masked_assign_def
  reset_lon_bounds_def set_times_as_datetimes_def
  binning_min_lats_def binning_max_lats_def binning_min_lons_def binning_max_lons_def

lemma mascon_loop_length:
  "mascon_loop body indices j mscn_mean = Inr r \<Longrightarrow> length r = length mscn_mean"
proof (induction indices arbitrary: j mscn_mean)
  case Nil
  then show ?case by simp
next
  case (Cons i indices)
  then show ?case
    by (cases "body i") (auto split: option.splits)
qed

lemma points_to_mascons_length:
  "points_to_mascons mascons I lats lons vals = Inr r \<Longrightarrow> length r = length (filter id I)"
  by (auto simp: points_to_mascons_def Let_def split: if_splits dest: mascon_loop_length)

lemma points_to_mascons_none_selected:
  assumes "length I = N_mascons mascons" and "list_all Not I"
  shows "points_to_mascons mascons I lats lons vals = Inr []"
proof -
  have "filter (\<lambda>i. I ! i) [0..<N_mascons mascons] = []"
    using assms by (auto simp: filter_empty_conv list_all_length)
  moreover have "filter id I = []"
    using assms(2) by (auto simp: filter_empty_conv list_all_iff)
  ultimately show ?thesis
    using assms(1) by (simp add: points_to_mascons_def)
qed

text \<open>
  Claim C6. The result has one entry per selected mascon and is empty for an all-false
  mask, as the two lemmas above show. The claim also gives every selected cell its own
  entry: the mean of the samples in its box, NaN when none survives. The docstring of
  \<^verbatim>\<open>points_to_mascons\<close> says the same. The loop leaves \<open>j\<close> where it is when a cell is
  skipped, so the mean of a later cell lands in the entry of the skipped one: with two
  selected cells and one sample, of value 4, in the box of the second, the result is
  \<open>[4, NaN]\<close> and not \<open>[NaN, 4]\<close>.
\<close>

theorem points_to_mascons_skipped_cell:
  "points_to_mascons (GSFCmascons_init two_mascons ''pm180'') [True, True] [20] [0] [Val 4]
     = Inr [Val 4, NaN]"
  by (simp add: points_to_mascons_def cell_mean_def broadcast_def mean_def two_mascons_def mascon_eval)

lemma clamped_lats_nth:
  assumes "i < length centers" "length spans = length centers"
  shows "fst (clamped_lats centers spans) ! i =
           (let lo = centers ! i - spans ! i / 2; hi = centers ! i + spans ! i / 2 in
            if lo < - 90 then - 90 else if hi > 90 then 89.5 else lo)"
    and "snd (clamped_lats centers spans) ! i =
           (let lo = centers ! i - spans ! i / 2; hi = centers ! i + spans ! i / 2 in
            if lo < - 90 then - 89.5 else if hi > 90 then 90 else hi)"
  using assms
  by (simp_all add: clamped_lats_def lower_bounds_def upper_bounds_def masked_assign_def Let_def)

lemma masked_values_aux:
  assumes "length lats = length lons" and "length lons = length vals"
  shows "map fst (filter snd (zip vals (map2 P lats lons)))
           = map (\<lambda>(la, lo, v). v) (filter (\<lambda>(la, lo, v). P la lo) (zip lats (zip lons vals)))"
  using assms by (induction lats lons vals rule: list_induct3) auto

lemma masked_values:
  assumes "length lons = length lats" and "length vals = length lats"
  shows "map fst (filter snd (zip vals (map2 P lats lons)))
           = map (\<lambda>(la, lo, v). v) (filter (\<lambda>(la, lo, v). P la lo) (zip lats (zip lons vals)))"
  using assms by (intro masked_values_aux) simp_all

lemma broadcast_same_length:
  assumes "length a = n"
  shows "broadcast n a = a"
proof (cases "length a = 1")
  case True
  then obtain x where "a = [x]"
    by (cases a) auto
  then show ?thesis using assms by (auto simp: broadcast_def)
next
  case False
  then show ?thesis by (simp add: broadcast_def)
qed

lemma no_sample_inside:
  assumes "\<And>la lo v. (la, lo, v) \<in> set (zip lats (zip lons vals)) \<Longrightarrow> \<not> in_raw_box mascons i la lo"
  shows "raw_box_mean mascons lats lons vals i = None"
proof -
  have "filter (\<lambda>(la, lo, v). in_raw_box mascons i la lo) (zip lats (zip lons vals)) = []"
    using assms by (auto simp: filter_empty_conv)
  then show ?thesis
    by (simp add: raw_box_mean_def)
qed

lemma cell_mean_raw_box:
  assumes ne: "lats \<noteq> []"
    and len: "length lons = length lats" "length vals = length lats"
    and lo_lat: "binning_min_lats mascons ! i = lat_centers mascons ! i - lat_spans mascons ! i / 2"
    and hi_lat: "binning_max_lats mascons ! i = lat_centers mascons ! i + lat_spans mascons ! i / 2"
    and lo_lon: "binning_min_lons mascons ! i = lon_centers mascons ! i - lon_spans mascons ! i / 2"
    and hi_lon: "binning_max_lons mascons ! i = lon_centers mascons ! i + lon_spans mascons ! i / 2"
  shows "cell_mean mascons lats lons vals i = Inr (raw_box_mean mascons lats lons vals i)"
proof -
  obtain a as where lats: "lats = a # as"
    using ne by (cases lats) auto
  obtain b bs where lons: "lons = b # bs"
    using ne len(1) by (cases lons) auto
  have mn_lat: "np_min lats = Inr (Min (set lats))" unfolding lats by (rule np_min_Min)
  have mx_lat: "np_max lats = Inr (Max (set lats))" unfolding lats by (rule np_max_Max)
  have mn_lon: "np_min lons = Inr (Min (set lons))" unfolding lons by (rule np_min_Min)
  have mx_lon: "np_max lons = Inr (Max (set lons))" unfolding lons by (rule np_max_Max)
  have in_lats: "la \<in> set lats" and in_lons: "lo \<in> set lons"
    if "(la, lo, v) \<in> set (zip lats (zip lons vals))" for la lo v
    using that by (auto dest: set_zip_leftD set_zip_rightD)
  have bounds: "Min (set lats) \<le> la" "la \<le> Max (set lats)" "Min (set lons) \<le> lo" "lo \<le> Max (set lons)"
    if "(la, lo, v) \<in> set (zip lats (zip lons vals))" for la lo v
    using in_lats[OF that] in_lons[OF that] by simp_all
  let ?P = "\<lambda>la lo. la \<ge> binning_min_lats mascons ! i \<and> la < binning_max_lats mascons ! i
                     \<and> lo \<ge> binning_min_lons mascons ! i \<and> lo < binning_max_lons mascons ! i"
  have P: "?P la lo = in_raw_box mascons i la lo" for la lo
    by (auto simp: in_raw_box_def lo_lat hi_lat lo_lon hi_lon)
  consider (c1) "Min (set lats) > binning_max_lats mascons ! i"
    | (c2) "Max (set lats) < binning_min_lats mascons ! i"
    | (c3) "Min (set lons) > binning_max_lons mascons ! i"
    | (c4) "Max (set lons) < binning_min_lons mascons ! i"
    | (main) "\<not> Min (set lats) > binning_max_lats mascons ! i"
             "\<not> Max (set lats) < binning_min_lats mascons ! i"
             "\<not> Min (set lons) > binning_max_lons mascons ! i"
             "\<not> Max (set lons) < binning_min_lons mascons ! i"
    by blast
  then show ?thesis
  proof cases
    case c1
    have "raw_box_mean mascons lats lons vals i = None"
      using c1 bounds(1) by (intro no_sample_inside) (fastforce simp: in_raw_box_def hi_lat)
    then show ?thesis
      using c1 by (simp add: cell_mean_def mn_lat)
  next
    case c2
    have "raw_box_mean mascons lats lons vals i = None"
      using c2 bounds(2) by (intro no_sample_inside) (fastforce simp: in_raw_box_def lo_lat)
    then show ?thesis
      using c2 by (simp add: cell_mean_def mn_lat mx_lat)
  next
    case c3
    have "raw_box_mean mascons lats lons vals i = None"
      using c3 bounds(3) by (intro no_sample_inside) (fastforce simp: in_raw_box_def hi_lon)
    then show ?thesis
      using c3 by (simp add: cell_mean_def mn_lat mx_lat mn_lon)
  next
    case c4
    have "raw_box_mean mascons lats lons vals i = None"
      using c4 bounds(4) by (intro no_sample_inside) (fastforce simp: in_raw_box_def lo_lon)
    then show ?thesis
      using c4 by (simp add: cell_mean_def mn_lat mx_lat mn_lon mx_lon)
  next
    case main
    have n: "max (length lats) (length lons) = length lats"
      using len by simp
    have K: "map fst (filter snd (zip vals (map2 ?P lats lons)))
               = map (\<lambda>(la, lo, v). v)
                   (filter (\<lambda>(la, lo, v). in_raw_box mascons i la lo) (zip lats (zip lons vals)))"
      using masked_values[OF len, of ?P] by (simp add: P)
    have "cell_mean mascons lats lons vals i
            = (let m' = map nan_to_zero (filter (\<lambda>v. \<not> isnan v)
                          (map fst (filter snd (zip vals (map2 ?P lats lons)))))
               in if length m' = 0 then Inr None else Inr (Some (mean m')))"
      using main len
      by (simp add: cell_mean_def mn_lat mx_lat mn_lon mx_lon n broadcast_same_length Let_def)
    then show ?thesis
      unfolding K by (simp add: raw_box_mean_def Let_def)
  qed
qed

lemma mascon_loop_compacts:
  assumes "\<And>i. i \<in> set indices \<Longrightarrow> body i = Inr (cell i)"
    and "length pre = j" and "length indices \<le> r"
  shows "mascon_loop body indices j (pre @ replicate r NaN)
           = Inr (pre @ map Val (stored_means cell indices)
                    @ replicate (r - length (stored_means cell indices)) NaN)"
  using assms
proof (induction indices arbitrary: j pre r)
  case Nil
  then show ?case by simp
next
  case (Cons i indices)
  have b: "body i = Inr (cell i)"
    using Cons.prems(1) by simp
  show ?case
  proof (cases "cell i")
    case None
    have "mascon_loop body indices j (pre @ replicate r NaN)
            = Inr (pre @ map Val (stored_means cell indices)
                     @ replicate (r - length (stored_means cell indices)) NaN)"
      using Cons.prems by (intro Cons.IH) auto
    then show ?thesis
      using b None by simp
  next
    case (Some v)
    from Cons.prems(3) obtain r' where r: "r = Suc r'"
      by (cases r) auto
    have upd: "(pre @ replicate r NaN)[j := Val v] = (pre @ [Val v]) @ replicate r' NaN"
      using Cons.prems(2) by (simp add: r list_update_append)
    have "mascon_loop body indices (j + 1) ((pre @ [Val v]) @ replicate r' NaN)
            = Inr ((pre @ [Val v]) @ map Val (stored_means cell indices)
                     @ replicate (r' - length (stored_means cell indices)) NaN)"
      using Cons.prems r by (intro Cons.IH) auto
    then show ?thesis
      using b Some upd by (simp add: r)
  qed
qed

lemma selected_indices_count:
  "length (filter (\<lambda>i. I ! i) [0..<length I]) = length (filter id I)"
proof -
  have "filter id I = filter id (map (\<lambda>i. I ! i) [0..<length I])"
    by (simp add: map_nth)
  also have "length \<dots> = length (filter (\<lambda>i. I ! i) [0..<length I])"
    by (simp add: filter_map comp_def)
  finally show ?thesis by simp
qed

lemma points_to_mascons_compacted:
  assumes shape: "length (lat_centers mascons) = N_mascons mascons"
      "length (lat_spans mascons) = N_mascons mascons"
      "length (lon_centers mascons) = N_mascons mascons"
      "length (lon_spans mascons) = N_mascons mascons"
    and sel: "length I = N_mascons mascons"
    and samples: "lats \<noteq> []" "length lons = length lats" "length vals = length lats"
  shows "points_to_mascons mascons I lats lons vals
           = Inr (map Val (stored_means (raw_box_mean mascons lats lons vals)
                             (filter (\<lambda>i. I ! i) [0..<N_mascons mascons]))
                  @ replicate (length (filter id I)
                               - length (stored_means (raw_box_mean mascons lats lons vals)
                                           (filter (\<lambda>i. I ! i) [0..<N_mascons mascons])))
                      NaN)"
proof -
  let ?idx = "filter (\<lambda>i. I ! i) [0..<N_mascons mascons]"
  have body: "cell_mean mascons lats lons vals i = Inr (raw_box_mean mascons lats lons vals i)"
    if "i \<in> set ?idx" for i
  proof -
    from that have i: "i < N_mascons mascons" by simp
    show ?thesis
      using samples i shape
      by (intro cell_mean_raw_box)
         (simp_all add: binning_min_lats_def binning_max_lats_def binning_min_lons_def
            binning_max_lons_def lower_bounds_def upper_bounds_def)
  qed
  have cnt: "length ?idx = length (filter id I)"
    using selected_indices_count[of I] sel by simp
  have "mascon_loop (cell_mean mascons lats lons vals) ?idx 0
          ([] @ replicate (length (filter id I)) NaN)
        = Inr ([] @ map Val (stored_means (raw_box_mean mascons lats lons vals) ?idx)
                 @ replicate (length (filter id I)
                              - length (stored_means (raw_box_mean mascons lats lons vals) ?idx)) NaN)"
    using body cnt by (intro mascon_loop_compacts) auto
  then show ?thesis
    using sel by (simp add: points_to_mascons_def)
qed

lemma interval_differs:
  fixes lo hi :: real
  assumes "lo < - 90 \<or> hi > 90"
  defines "c_lo \<equiv> (if lo < - 90 then - 90 else if hi > 90 then 89.5 else lo)"
  defines "c_hi \<equiv> (if lo < - 90 then - 89.5 else if hi > 90 then 90 else hi)"
  shows "{la. lo \<le> la \<and> la < hi} \<noteq> {la. c_lo \<le> la \<and> la < c_hi}"
proof (cases "lo < hi")
  case True
  show ?thesis
  proof (cases "lo < - 90")
    case True
    then have "lo \<in> {la. lo \<le> la \<and> la < hi}" "lo \<notin> {la. c_lo \<le> la \<and> la < c_hi}"
      using \<open>lo < hi\<close> by (auto simp: c_lo_def)
    then show ?thesis by blast
  next
    case False
    with assms(1) have hi: "hi > 90" by simp
    have "max lo 90 \<in> {la. lo \<le> la \<and> la < hi}" "max lo 90 \<notin> {la. c_lo \<le> la \<and> la < c_hi}"
      using \<open>lo < hi\<close> hi False by (auto simp: c_hi_def)
    then show ?thesis by blast
  qed
next
  case False
  then have empty: "{la. lo \<le> la \<and> la < hi} = {}" by auto
  have "c_lo \<in> {la. c_lo \<le> la \<and> la < c_hi}"
    using assms(1) by (auto simp: c_lo_def c_hi_def)
  then show ?thesis unfolding empty by blast
qed

text \<open>
  Claim C10. \<^verbatim>\<open>points_to_mascons\<close> tests samples against the bounds it recomputes as
  center minus and plus half the span, not against the clamped \<^verbatim>\<open>min_lats\<close> and
  \<^verbatim>\<open>max_lats\<close> of the object: on a non-empty set of samples its result consists of the
  means over these raw boxes, stored in the order of the selection, followed by NaN.
  For every mascon whose raw latitude bounds reach below -90 or above 90 degrees the
  raw bounds differ from the clamped bounds of the object, and so do the two latitude
  intervals.
\<close>

theorem points_to_mascons_bins_by_raw_box:
  fixes f :: mascon_file and lon_wrap :: string
  assumes arrays: "length (lat_span f) = length (lat_center f)"
      "length (lon_center f) = length (lat_center f)"
      "length (lon_span f) = length (lat_center f)"
    and sel: "length I = length (lat_center f)"
    and samples: "lats \<noteq> []" "length lons = length lats" "length vals = length lats"
  defines "m \<equiv> GSFCmascons_init f lon_wrap"
  defines "selected \<equiv> filter (\<lambda>i. I ! i) [0..<length (lat_center f)]"
  shows "points_to_mascons m I lats lons vals
           = Inr (map Val (stored_means (raw_box_mean m lats lons vals) selected)
                  @ replicate (length (filter id I)
                               - length (stored_means (raw_box_mean m lats lons vals) selected))
                      NaN)
       \<and> (\<forall>i < length (lat_center f).
            lat_centers m ! i - lat_spans m ! i / 2 < - 90
              \<or> lat_centers m ! i + lat_spans m ! i / 2 > 90
            \<longrightarrow> (min_lats m ! i, max_lats m ! i)
                   \<noteq> (lat_centers m ! i - lat_spans m ! i / 2,
                       lat_centers m ! i + lat_spans m ! i / 2)
                \<and> {la. lat_centers m ! i - lat_spans m ! i / 2 \<le> la
                         \<and> la < lat_centers m ! i + lat_spans m ! i / 2}
                   \<noteq> {la. min_lats m ! i \<le> la \<and> la < max_lats m ! i})"
proof -
  have n: "N_mascons m = length (lat_center f)"
    by (simp add: m_def GSFCmascons_init_def Let_def)
  have shape: "length (lat_centers m) = N_mascons m" "length (lat_spans m) = N_mascons m"
      "length (lon_centers m) = N_mascons m" "length (lon_spans m) = N_mascons m"
    using arrays by (simp_all add: m_def GSFCmascons_init_def Let_def reset_lon_bounds_def)
  have first: "points_to_mascons m I lats lons vals
           = Inr (map Val (stored_means (raw_box_mean m lats lons vals) selected)
                  @ replicate (length (filter id I)
                               - length (stored_means (raw_box_mean m lats lons vals) selected))
                      NaN)"
    using points_to_mascons_compacted[OF shape _ samples, of I] sel
    by (simp add: n selected_def)
  have cs: "lat_centers m = lat_center f" "lat_spans m = lat_span f"
    by (simp_all add: m_def GSFCmascons_init_def Let_def)
  have mn: "min_lats m = fst (clamped_lats (lat_center f) (lat_span f))"
    and mx: "max_lats m = snd (clamped_lats (lat_center f) (lat_span f))"
    by (simp_all add: m_def GSFCmascons_init_def Let_def)
  have second: "(min_lats m ! i, max_lats m ! i)
                   \<noteq> (lat_centers m ! i - lat_spans m ! i / 2,
                       lat_centers m ! i + lat_spans m ! i / 2)
                \<and> {la. lat_centers m ! i - lat_spans m ! i / 2 \<le> la
                         \<and> la < lat_centers m ! i + lat_spans m ! i / 2}
                   \<noteq> {la. min_lats m ! i \<le> la \<and> la < max_lats m ! i}"
    if i: "i < length (lat_center f)"
      and out: "lat_centers m ! i - lat_spans m ! i / 2 < - 90
                  \<or> lat_centers m ! i + lat_spans m ! i / 2 > 90"
    for i
  proof -
    let ?lo = "lat_center f ! i - lat_span f ! i / 2"
    let ?hi = "lat_center f ! i + lat_span f ! i / 2"
    have out': "?lo < - 90 \<or> ?hi > 90"
      using out by (simp add: cs)
    have cl: "min_lats m ! i = (if ?lo < - 90 then - 90 else if ?hi > 90 then 89.5 else ?lo)"
      "max_lats m ! i = (if ?lo < - 90 then - 89.5 else if ?hi > 90 then 90 else ?hi)"
      unfolding mn mx using clamped_lats_nth[OF i arrays(1)] by (simp_all add: Let_def)
    have pair: "(min_lats m ! i, max_lats m ! i) \<noteq> (?lo, ?hi)"
      using out' unfolding cl by auto
    have sets: "{la. ?lo \<le> la \<and> la < ?hi} \<noteq> {la. min_lats m ! i \<le> la \<and> la < max_lats m ! i}"
      unfolding cl using interval_differs[OF out'] .
    show ?thesis
      using pair sets by (simp add: cs)
  qed
  show ?thesis
    using first second by blast
qed

text \<open>
  The polar cap: its raw box is [-90.4, -89.4), its clamped box [-90, -89.5). A sample
  at latitude -89.45, outside the clamped box, is binned into it; a sample at -89.3 is
  not.
\<close>

theorem points_to_mascons_bins_by_raw_box_witness:
  "points_to_mascons (GSFCmascons_init polar_mascon ''pm180'') [True] [- 89.45] [0] [Val 7]
       = Inr [Val 7]
   \<and> (min_lats (GSFCmascons_init polar_mascon ''pm180'') ! 0,
      max_lats (GSFCmascons_init polar_mascon ''pm180'') ! 0) = (- 90, - 89.5)
   \<and> lat_centers (GSFCmascons_init polar_mascon ''pm180'') ! 0
        - lat_spans (GSFCmascons_init polar_mascon ''pm180'') ! 0 / 2 = - 90.4
   \<and> lat_centers (GSFCmascons_init polar_mascon ''pm180'') ! 0
        + lat_spans (GSFCmascons_init polar_mascon ''pm180'') ! 0 / 2 = - 89.4
   \<and> points_to_mascons (GSFCmascons_init polar_mascon ''pm180'') [True] [- 89.3] [0] [Val 7]
       = Inr [NaN]"
  using points_to_mascons_bins_by_raw_box [of polar_mascon "[True]" "[- 89.45]" "[0]" "[Val 7]" "''pm180''"]
    points_to_mascons_bins_by_raw_box [of polar_mascon "[True]" "[- 89.3]" "[0]" "[Val 7]" "''pm180''"]
  by (simp add: polar_mascon_def mascon_eval raw_box_mean_def in_raw_box_def mean_def)

section \<open>Properties: change of cmwe between two dates\<close>

lemma searchsorted_eq:
  assumes "k \<le> length x"
    and "\<And>i. i < k \<Longrightarrow> x ! i < v"
    and "k < length x \<Longrightarrow> v \<le> x ! k"
  shows "searchsorted x v = k"
proof -
  have "takeWhile (\<lambda>a. a < v) x = take k x"
    using assms by (intro takeWhile_eq_take_P_nth) auto
  then show ?thesis
    using assms(1) by (simp add: searchsorted_def)
qed

lemma interp1d_linear_at:
  assumes "1 \<le> hi" and "hi < length x" and "x ! (hi - 1) < x ! hi"
    and "clip 1 (length x - 1) (searchsorted x t) = hi"
  shows "interp1d_linear x y t
           = Val ((y ! hi - y ! (hi - 1)) / (x ! hi - x ! (hi - 1)) * (t - x ! (hi - 1)) + y ! (hi - 1))"
  using assms by (simp add: interp1d_linear_def Let_def)

lemma interp1d_linear_Val:
  assumes "sorted_wrt (<) x" and "2 \<le> length x"
  shows "\<exists>v. interp1d_linear x y t = Val v"
proof -
  define hi where "hi = clip 1 (length x - 1) (searchsorted x t)"
  have "1 \<le> hi" "hi < length x"
    using assms(2) by (auto simp: hi_def clip_def)
  moreover then have "x ! (hi - 1) < x ! hi"
    using assms(1) by (intro sorted_wrt_nth_less[where P = "(<)"]) auto
  ultimately show ?thesis
    using interp1d_linear_at[of hi x t y] by (simp add: hi_def)
qed

lemma interp1d_linear_between:
  assumes srt: "sorted_wrt (<) x" and k: "k + 1 < length x"
    and lo: "x ! k \<le> t" and hi: "t \<le> x ! (k + 1)"
  shows "interp1d_linear x y t = Val (line_through_knots x y k t)"
proof (cases "x ! k < t")
  case True
  have below: "x ! i < t" if "i < k + 1" for i
  proof (cases "i = k")
    case True
    then show ?thesis using \<open>x ! k < t\<close> by simp
  next
    case False
    then have "x ! i < x ! k"
      using that k srt by (intro sorted_wrt_nth_less[where P = "(<)"]) auto
    then show ?thesis using \<open>x ! k < t\<close> by simp
  qed
  have ss: "searchsorted x t = k + 1"
    using k hi below by (intro searchsorted_eq) auto
  have step: "x ! k < x ! (k + 1)"
    using k srt by (intro sorted_wrt_nth_less[where P = "(<)"]) auto
  have "interp1d_linear x y t
          = Val ((y ! (k + 1) - y ! k) / (x ! (k + 1) - x ! k) * (t - x ! k) + y ! k)"
    using interp1d_linear_at[of "k + 1" x t y] k step ss by (simp add: clip_def)
  then show ?thesis
    by (simp add: line_through_knots_def)
next
  case False
  with lo have eq: "t = x ! k" by simp
  have below: "x ! i < t" if "i < k" for i
    unfolding eq using that k srt by (intro sorted_wrt_nth_less[where P = "(<)"]) auto
  have ss: "searchsorted x t = k"
    using k below eq by (intro searchsorted_eq) auto
  show ?thesis
  proof (cases k)
    case 0
    have step: "x ! 0 < x ! 1"
      using k srt 0 by (intro sorted_wrt_nth_less[where P = "(<)"]) auto
    have "interp1d_linear x y t = Val ((y ! 1 - y ! 0) / (x ! 1 - x ! 0) * (t - x ! 0) + y ! 0)"
      using interp1d_linear_at[of 1 x t y] k step ss 0 by (simp add: clip_def)
    then show ?thesis
      using 0 by (simp add: line_through_knots_def)
  next
    case (Suc j)
    have step: "x ! j < x ! k"
      using k srt Suc by (intro sorted_wrt_nth_less[where P = "(<)"]) auto
    have "interp1d_linear x y t = Val ((y ! k - y ! j) / (x ! k - x ! j) * (t - x ! j) + y ! j)"
      using interp1d_linear_at[of k x t y] k step ss Suc by (simp add: clip_def)
    also have "(y ! k - y ! j) / (x ! k - x ! j) * (t - x ! j) + y ! j = y ! k"
      using step by (simp add: eq)
    finally show ?thesis
      by (simp add: line_through_knots_def eq)
  qed
qed

lemma interp1d_linear_outside:
  assumes srt: "sorted_wrt (<) x" and n: "2 \<le> length x"
  shows "t < x ! 0 \<Longrightarrow> interp1d_linear x y t = Val (line_through_knots x y 0 t)"
    and "x ! (length x - 1) < t
           \<Longrightarrow> interp1d_linear x y t = Val (line_through_knots x y (length x - 2) t)"
proof -
  assume t: "t < x ! 0"
  have ss: "searchsorted x t = 0"
    using n t by (intro searchsorted_eq) auto
  have step: "x ! 0 < x ! 1"
    using n srt by (intro sorted_wrt_nth_less[where P = "(<)"]) auto
  have "interp1d_linear x y t = Val ((y ! 1 - y ! 0) / (x ! 1 - x ! 0) * (t - x ! 0) + y ! 0)"
    using interp1d_linear_at[of 1 x t y] n step ss by (simp add: clip_def)
  then show "interp1d_linear x y t = Val (line_through_knots x y 0 t)"
    by (simp add: line_through_knots_def)
next
  assume t: "x ! (length x - 1) < t"
  have below: "x ! i < t" if "i < length x" for i
  proof (cases "i = length x - 1")
    case True
    then show ?thesis using t by simp
  next
    case False
    then have "x ! i < x ! (length x - 1)"
      using that srt by (intro sorted_wrt_nth_less[where P = "(<)"]) auto
    then show ?thesis using t by simp
  qed
  have ss: "searchsorted x t = length x"
    using below by (intro searchsorted_eq) auto
  obtain m where m: "length x = m + 2"
    using n by (metis add.commute le_Suc_ex)
  have step: "x ! m < x ! (m + 1)"
    using m srt by (intro sorted_wrt_nth_less[where P = "(<)"]) auto
  have "interp1d_linear x y t
          = Val ((y ! (m + 1) - y ! m) / (x ! (m + 1) - x ! m) * (t - x ! m) + y ! m)"
    using interp1d_linear_at[of "m + 1" x t y] m step ss by (simp add: clip_def)
  then show "interp1d_linear x y t = Val (line_through_knots x y (length x - 2) t)"
    by (simp add: line_through_knots_def m)
qed

lemma selected_rows:
  assumes "length I = length rows"
  shows "map fst (filter snd (zip rows I)) = map (\<lambda>i. rows ! i) (filter (\<lambda>i. I ! i) [0..<length rows])"
  using assms
proof (induction rows arbitrary: I rule: rev_induct)
  case Nil
  then show ?case by simp
next
  case (snoc r rows)
  then obtain I' b where I: "I = I' @ [b]" and len: "length I' = length rows"
    by (cases I rule: rev_cases) auto
  have a: "filter (\<lambda>i. (I' @ [b]) ! i) [0..<length rows] = filter (\<lambda>i. I' ! i) [0..<length rows]"
    using len by (intro filter_cong) (auto simp: nth_append)
  have b: "map (\<lambda>i. (rows @ [r]) ! i) (filter (\<lambda>i. I' ! i) [0..<length rows])
             = map (\<lambda>i. rows ! i) (filter (\<lambda>i. I' ! i) [0..<length rows])"
    by (intro map_cong) (auto simp: nth_append)
  have "map fst (filter snd (zip (rows @ [r]) I))
          = map fst (filter snd (zip rows I')) @ (if b then [r] else [])"
    using len by (simp add: I)
  also have "map fst (filter snd (zip rows I'))
               = map (\<lambda>i. (rows @ [r]) ! i) (filter (\<lambda>i. I ! i) [0..<length rows])"
    unfolding I a b by (rule snoc.IH[OF len])
  also have "(if b then [r] else [])
               = map (\<lambda>i. (rows @ [r]) ! i) (filter (\<lambda>i. I ! i) [length rows])"
    using len by (simp add: I nth_append)
  finally show ?case
    by simp
qed

lemma selected_count:
  assumes "length I = length rows"
  shows "length (filter snd (zip rows I)) = length (filter id I)"
  using assms by (induction I rows rule: list_induct2) auto

lemmas date_eval =
  YYYY_MM_DD_to_days_since_Jan_0_2002_def is_digit_def digit_def days_in_month_def is_leap_def
  ymd2ord_def days_before_year_def days_before_month_def

lemmas interp_eval =
  calc_mascon_delta_cmwe_def interp1d_linear_def searchsorted_def clip_def

text \<open>
  Claim C4 has the date strings converted to days since 2002-01-01. The source counts
  from 2001-12-31, as the name of its helper says: 2002-01-01 is day 1, not day 0. On a
  record that starts at day 1 the start date 2002-01-01 is therefore in range and a
  result is returned, where a start at day 0 would have been refused.
\<close>

theorem epoch_is_jan_0_2002:
  "YYYY_MM_DD_to_days_since_Jan_0_2002 ''2002-01-01'' = Inr 1
   \<and> days_since_2002_01_01 (2002, 1, 1) = 0
   \<and> days_start (GSFCmascons_init two_mascons ''pm180'') = [1, 32]
   \<and> calc_mascon_delta_cmwe (GSFCmascons_init two_mascons ''pm180'')
        ''2002-01-01'' ''2002-02-01'' [True, True]
       = Inr (Some [Val (31 / 30), Val (31 / 15)])"
  by (simp add: date_eval days_since_2002_01_01_def interp_eval two_mascons_def mascon_eval)

text \<open>
  Claim C4, amended. \<^verbatim>\<open>calc_mascon_delta_cmwe\<close> converts its two date strings to days since
  2001-12-31. On a mascon set whose time arrays are not empty and whose \<^verbatim>\<open>cmwe\<close> rows are
  as long as \<^verbatim>\<open>days_middle\<close>, with a mask of one entry per row, it returns None when the
  start precedes \<^verbatim>\<open>days_start[0]\<close> or the end follows \<^verbatim>\<open>days_end[-1]\<close>, and otherwise, for
  each selected row in the order of the rows, the interpolated value at the end minus
  the interpolated value at the start. On a strictly increasing time axis the
  interpolated value between two neighbouring knots is the value of the straight line
  through them; before the first knot and after the last it is the value of the line
  through the first two and through the last two knots.
\<close>

theorem calc_mascon_delta_cmwe_result:
  fixes mascon :: GSFCmascons
  assumes s: "strptime_Ymd start_date = Inr d0" and e: "strptime_Ymd end_date = Inr d1"
    and ds: "days_start mascon \<noteq> []" and de: "days_end mascon \<noteq> []"
    and dm: "days_middle mascon \<noteq> []"
    and sel: "length I = length (cmwe mascon)"
    and rows: "list_all (\<lambda>row. length row = length (days_middle mascon)) (cmwe mascon)"
  defines "t_0 \<equiv> real_of_int (ymd2ord d0 - ymd2ord (2001, 12, 31))"
  defines "t_1 \<equiv> real_of_int (ymd2ord d1 - ymd2ord (2001, 12, 31))"
  shows "YYYY_MM_DD_to_days_since_Jan_0_2002 start_date = Inr t_0
       \<and> YYYY_MM_DD_to_days_since_Jan_0_2002 end_date = Inr t_1
       \<and> (t_0 < hd (days_start mascon) \<or> last (days_end mascon) < t_1
            \<longrightarrow> calc_mascon_delta_cmwe mascon start_date end_date I = Inr None)
       \<and> (\<not> (t_0 < hd (days_start mascon) \<or> last (days_end mascon) < t_1)
            \<longrightarrow> calc_mascon_delta_cmwe mascon start_date end_date I
                  = Inr (Some (map (\<lambda>i. np_sub (interp1d_linear (days_middle mascon) (cmwe mascon ! i) t_1)
                                               (interp1d_linear (days_middle mascon) (cmwe mascon ! i) t_0))
                                   (filter (\<lambda>i. I ! i) [0..<length (cmwe mascon)]))))
       \<and> (sorted_wrt (<) (days_middle mascon) \<longrightarrow>
            (\<forall>row k t. k + 1 < length (days_middle mascon)
                        \<and> days_middle mascon ! k \<le> t \<and> t \<le> days_middle mascon ! (k + 1)
               \<longrightarrow> interp1d_linear (days_middle mascon) row t
                     = Val (line_through_knots (days_middle mascon) row k t)))
       \<and> (sorted_wrt (<) (days_middle mascon) \<and> 2 \<le> length (days_middle mascon) \<longrightarrow>
            (\<forall>row t.
               (t < days_middle mascon ! 0
                  \<longrightarrow> interp1d_linear (days_middle mascon) row t
                        = Val (line_through_knots (days_middle mascon) row 0 t))
               \<and> (days_middle mascon ! (length (days_middle mascon) - 1) < t
                  \<longrightarrow> interp1d_linear (days_middle mascon) row t
                        = Val (line_through_knots (days_middle mascon) row
                                 (length (days_middle mascon) - 2) t))))"
proof -
  have c0: "YYYY_MM_DD_to_days_since_Jan_0_2002 start_date = Inr t_0"
    by (simp add: YYYY_MM_DD_to_days_since_Jan_0_2002_def s t_0_def)
  have c1: "YYYY_MM_DD_to_days_since_Jan_0_2002 end_date = Inr t_1"
    by (simp add: YYYY_MM_DD_to_days_since_Jan_0_2002_def e t_1_def)
  obtain first_start rest where st: "days_start mascon = first_start # rest"
    using ds by (cases "days_start mascon") auto
  have shape: "list_all (\<lambda>row. length row = length (days_middle mascon))
                 (map fst (filter snd (zip (cmwe mascon) I)))"
    using rows by (auto simp: list_all_iff dest!: set_zip_leftD)
  have none: "calc_mascon_delta_cmwe mascon start_date end_date I = Inr None"
    if "t_0 < hd (days_start mascon) \<or> last (days_end mascon) < t_1"
    using that de by (auto simp: calc_mascon_delta_cmwe_def c0 c1 st)
  have some: "calc_mascon_delta_cmwe mascon start_date end_date I
                = Inr (Some (map (\<lambda>i. np_sub (interp1d_linear (days_middle mascon) (cmwe mascon ! i) t_1)
                                             (interp1d_linear (days_middle mascon) (cmwe mascon ! i) t_0))
                                 (filter (\<lambda>i. I ! i) [0..<length (cmwe mascon)])))"
    if "\<not> (t_0 < hd (days_start mascon) \<or> last (days_end mascon) < t_1)"
  proof -
    have "calc_mascon_delta_cmwe mascon start_date end_date I
            = Inr (Some (map (\<lambda>row. np_sub (interp1d_linear (days_middle mascon) row t_1)
                                           (interp1d_linear (days_middle mascon) row t_0))
                             (map fst (filter snd (zip (cmwe mascon) I)))))"
      using that de dm sel shape by (simp add: calc_mascon_delta_cmwe_def c0 c1 st Let_def)
    then show ?thesis
      by (simp add: selected_rows[OF sel] comp_def)
  qed
  have inner: "sorted_wrt (<) (days_middle mascon) \<longrightarrow>
            (\<forall>row k t. k + 1 < length (days_middle mascon)
                        \<and> days_middle mascon ! k \<le> t \<and> t \<le> days_middle mascon ! (k + 1)
               \<longrightarrow> interp1d_linear (days_middle mascon) row t
                     = Val (line_through_knots (days_middle mascon) row k t))"
    using interp1d_linear_between by blast
  have outer: "sorted_wrt (<) (days_middle mascon) \<and> 2 \<le> length (days_middle mascon) \<longrightarrow>
            (\<forall>row t.
               (t < days_middle mascon ! 0
                  \<longrightarrow> interp1d_linear (days_middle mascon) row t
                        = Val (line_through_knots (days_middle mascon) row 0 t))
               \<and> (days_middle mascon ! (length (days_middle mascon) - 1) < t
                  \<longrightarrow> interp1d_linear (days_middle mascon) row t
                        = Val (line_through_knots (days_middle mascon) row
                                 (length (days_middle mascon) - 2) t)))"
    using interp1d_linear_outside by blast
  show ?thesis
    using c0 c1 none some inner outer by blast
qed

theorem calc_mascon_delta_cmwe_result_witness:
  "calc_mascon_delta_cmwe (GSFCmascons_init two_mascons ''pm180'')
       ''2002-01-16'' ''2002-02-15'' [False, True] = Inr (Some [Val 2])
   \<and> calc_mascon_delta_cmwe (GSFCmascons_init two_mascons ''pm180'')
       ''2001-12-31'' ''2002-02-15'' [False, True] = Inr None
   \<and> calc_mascon_delta_cmwe (GSFCmascons_init two_mascons ''pm180'')
       ''2002-01-16'' ''2002-03-01'' [False, True] = Inr None
   \<and> interp1d_linear [16, 46] [3, 5] 31 = Val 4
   \<and> interp1d_linear [16, 46] [3, 5] 1 = Val 2"
  using calc_mascon_delta_cmwe_result [of "''2002-01-16''" "(2002, 1, 16)" "''2002-02-15''" "(2002, 2, 15)"
          "GSFCmascons_init two_mascons ''pm180''" "[False, True]"]
    calc_mascon_delta_cmwe_result [of "''2001-12-31''" "(2001, 12, 31)" "''2002-02-15''" "(2002, 2, 15)"
          "GSFCmascons_init two_mascons ''pm180''" "[False, True]"]
    calc_mascon_delta_cmwe_result [of "''2002-01-16''" "(2002, 1, 16)" "''2002-03-01''" "(2002, 3, 1)"
          "GSFCmascons_init two_mascons ''pm180''" "[False, True]"]
  by (simp add: date_eval interp_eval two_mascons_def mascon_eval line_through_knots_def)

text \<open>
  Claim C5, as stated for every in-range date, fails on a mascon set with a single
  solution: SciPy's linear kernel then evaluates the line through one knot taken twice
  and divides by zero, and the result is not a number instead of zero.
\<close>

theorem single_solution_gives_nan:
  "days_start (GSFCmascons_init one_solution ''pm180'') = [1]
   \<and> days_end (GSFCmascons_init one_solution ''pm180'') = [31]
   \<and> YYYY_MM_DD_to_days_since_Jan_0_2002 ''2002-01-16'' = Inr 16
   \<and> calc_mascon_delta_cmwe (GSFCmascons_init one_solution ''pm180'')
        ''2002-01-16'' ''2002-01-16'' [True]
       = Inr (Some [NaN])"
  by (simp add: date_eval interp_eval one_solution_def mascon_eval)

text \<open>
  Claim C5, amended. On a mascon set with a strictly increasing time axis of at least two
  knots, for every date within the record and every selection mask of one entry per row,
  \<^verbatim>\<open>calc_mascon_delta_cmwe\<close> with the same start and end date returns zeros, one for
  each selected mascon.
\<close>

theorem same_date_gives_zeros:
  fixes mascon :: GSFCmascons
  assumes d: "YYYY_MM_DD_to_days_since_Jan_0_2002 date = Inr t"
    and ds: "days_start mascon \<noteq> []" and de: "days_end mascon \<noteq> []"
    and lo: "hd (days_start mascon) \<le> t" and hi: "t \<le> last (days_end mascon)"
    and sel: "length I = length (cmwe mascon)"
    and rows: "list_all (\<lambda>row. length row = length (days_middle mascon)) (cmwe mascon)"
    and srt: "sorted_wrt (<) (days_middle mascon)" and two: "2 \<le> length (days_middle mascon)"
  shows "calc_mascon_delta_cmwe mascon date date I = Inr (Some (replicate (length (filter id I)) (Val 0)))"
proof -
  obtain first_start rest where st: "days_start mascon = first_start # rest"
    using ds by (cases "days_start mascon") auto
  have dm: "days_middle mascon \<noteq> []"
    using two by auto
  have shape: "list_all (\<lambda>row. length row = length (days_middle mascon))
                 (map fst (filter snd (zip (cmwe mascon) I)))"
    using rows by (auto simp: list_all_iff dest!: set_zip_leftD)
  have zero: "np_sub (interp1d_linear (days_middle mascon) row t)
                     (interp1d_linear (days_middle mascon) row t) = Val 0" for row
    using interp1d_linear_Val[OF srt two, of row t] by auto
  have "calc_mascon_delta_cmwe mascon date date I
          = Inr (Some (map (\<lambda>row. Val 0) (map fst (filter snd (zip (cmwe mascon) I)))))"
    using lo hi de dm sel shape by (simp add: calc_mascon_delta_cmwe_def d st Let_def zero)
  also have "map (\<lambda>row. Val 0) (map fst (filter snd (zip (cmwe mascon) I)))
               = replicate (length (filter id I)) (Val 0)"
    by (simp add: map_replicate_const selected_count[OF sel])
  finally show ?thesis .
qed

theorem same_date_gives_zeros_witness:
  "calc_mascon_delta_cmwe (GSFCmascons_init two_mascons ''pm180'')
       ''2002-01-20'' ''2002-01-20'' [True, True] = Inr (Some [Val 0, Val 0])
   \<and> calc_mascon_delta_cmwe (GSFCmascons_init two_mascons ''pm180'')
       ''2002-01-01'' ''2002-01-01'' [False, True] = Inr (Some [Val 0])"
  using same_date_gives_zeros [of "''2002-01-20''" 20 "GSFCmascons_init two_mascons ''pm180''" "[True, True]"]
    same_date_gives_zeros [of "''2002-01-01''" 1 "GSFCmascons_init two_mascons ''pm180''" "[False, True]"]
  by (simp add: date_eval two_mascons_def mascon_eval)

end
